theory Spec2Isabelle
  imports Complex_Main "HOL-Library.Log_Nat" "HOL-Library.Multiset" "HOL-Library.Finite_Map"
    "HOL-Library.Extended_Nat"
begin

section \<open>JavaScript numbers\<close>

text \<open>
  A JavaScript \<^verbatim>\<open>number\<close> is an IEEE-754 double.  A finite double is carried by the real
  number it denotes; the two zeros are identified.  \<open>fl\<close> rounds an exact real result to the
  nearest double (ties to even, 53-bit significand, gradual underflow below \<open>2^-1022\<close>,
  overflow to an infinity from \<open>2^1024 - 2^970\<close> on), which is what every arithmetic
  operation and every string-to-number conversion of the language does with its exact result.
\<close>

datatype jsnum = Num real | PosInf | NegInf | NaN

definition pow2 :: "int \<Rightarrow> real" where
  "pow2 k = (if 0 \<le> k then 2 ^ nat k else 1 / 2 ^ nat (- k))"

definition ilog2 :: "real \<Rightarrow> int" where
  "ilog2 x = (if 1 \<le> x then bitlen \<lfloor>x\<rfloor> - 1 else - bitlen (\<lceil>1 / x\<rceil> - 1))"

definition roundTiesEven :: "real \<Rightarrow> int" where
  "roundTiesEven q = (let n = \<lfloor>q\<rfloor>; r = q - of_int n in
     if r < 1 / 2 then n else if 1 / 2 < r then n + 1 else if even n then n else n + 1)"

definition flpos :: "real \<Rightarrow> jsnum" where
  "flpos x = (let u = pow2 (max (ilog2 x) (- 1022) - 52); y = of_int (roundTiesEven (x / u)) * u
     in if pow2 1024 \<le> y then PosInf else Num y)"

definition fl :: "real \<Rightarrow> jsnum" where
  "fl x = (if x = 0 then Num 0 else if 0 < x then flpos x
     else (case flpos (- x) of Num y \<Rightarrow> Num (- y) | _ \<Rightarrow> NegInf))"

text \<open>\<^verbatim>\<open>a + b\<close>.  Adding a zero is exact, so it is returned without rounding.\<close>

fun js_add :: "jsnum \<Rightarrow> jsnum \<Rightarrow> jsnum" where
  "js_add (Num a) (Num b) = (if b = 0 then Num a else if a = 0 then Num b else fl (a + b))"
| "js_add NaN _ = NaN"
| "js_add _ NaN = NaN"
| "js_add PosInf NegInf = NaN"
| "js_add NegInf PosInf = NaN"
| "js_add PosInf _ = PosInf"
| "js_add _ PosInf = PosInf"
| "js_add NegInf _ = NegInf"
| "js_add _ NegInf = NegInf"

text \<open>\<^verbatim>\<open>h * 60\<close>\<close>

fun js_times60 :: "jsnum \<Rightarrow> jsnum" where
  "js_times60 (Num a) = fl (a * 60)"
| "js_times60 x = x"

text \<open>\<^verbatim>\<open>a <= b\<close> and \<^verbatim>\<open>a >= b\<close>: false whenever an operand is NaN.\<close>

fun js_le :: "jsnum \<Rightarrow> jsnum \<Rightarrow> bool" where
  "js_le NaN _ = False"
| "js_le _ NaN = False"
| "js_le NegInf _ = True"
| "js_le _ PosInf = True"
| "js_le (Num a) (Num b) = (a \<le> b)"
| "js_le _ _ = False"

definition js_ge :: "jsnum \<Rightarrow> jsnum \<Rightarrow> bool" where
  "js_ge a b = js_le b a"

text \<open>\<^verbatim>\<open>Number.isInteger\<close>, \<^verbatim>\<open>Number.isFinite\<close>, \<^verbatim>\<open>Math.round\<close> (halves go up).\<close>

fun Number_isInteger :: "jsnum \<Rightarrow> bool" where
  "Number_isInteger (Num x) = (x = of_int \<lfloor>x\<rfloor>)"
| "Number_isInteger _ = False"

fun Number_isFinite :: "jsnum \<Rightarrow> bool" where
  "Number_isFinite (Num x) = True"
| "Number_isFinite _ = False"

fun Math_round :: "jsnum \<Rightarrow> jsnum" where
  "Math_round (Num x) = Num (of_int \<lfloor>x + 1 / 2\<rfloor>)"
| "Math_round x = x"

section \<open>JavaScript strings\<close>

text \<open>
  A string is a list of code units; the model covers the code units below 256.
  White space is what \<^verbatim>\<open>trim\<close> and the regular-expression class \<^verbatim>\<open>\s\<close> accept there:
  tab, line feed, vertical tab, form feed, carriage return, space and no-break space.
\<close>

definition isDigit :: "char \<Rightarrow> bool" where
  "isDigit c = (c \<in> set ''0123456789'')"

definition digitVal :: "char \<Rightarrow> int" where
  "digitVal c = of_char c - 48"

definition isSpace :: "char \<Rightarrow> bool" where
  "isSpace c = (of_char c \<in> {9, 10, 11, 12, 13, 32, 160 :: int})"

definition trim :: "string \<Rightarrow> string" where
  "trim s = rev (dropWhile isSpace (rev (dropWhile isSpace s)))"

definition lowerChar :: "char \<Rightarrow> char" where
  "lowerChar c = (let n = of_char c :: int in
     if (65 \<le> n \<and> n \<le> 90) \<or> (192 \<le> n \<and> n \<le> 222 \<and> n \<noteq> 215) then char_of (n + 32) else c)"

definition toLowerCase :: "string \<Rightarrow> string" where
  "toLowerCase s = map lowerChar s"

text \<open>The value of a string of decimal digits, most significant digit first.\<close>

definition digitsVal :: "string \<Rightarrow> int" where
  "digitsVal ds = foldl (\<lambda>n c. 10 * n + digitVal c) 0 ds"

text \<open>\<^verbatim>\<open>a < b\<close> and \<^verbatim>\<open>a >= b\<close> on strings: lexicographic on code units.\<close>

fun str_less :: "string \<Rightarrow> string \<Rightarrow> bool" where
  "str_less [] [] = False"
| "str_less [] (y # ys) = True"
| "str_less (x # xs) [] = False"
| "str_less (x # xs) (y # ys) =
     (if (of_char x :: int) < of_char y then True
      else if (of_char y :: int) < of_char x then False
      else str_less xs ys)"

definition str_ge :: "string \<Rightarrow> string \<Rightarrow> bool" where
  "str_ge a b = (\<not> str_less a b)"

section \<open>The data model (core/model.ts)\<close>

datatype Priority = P1 | P2 | P3 | P4

fun priorityNum :: "Priority \<Rightarrow> int" where
  "priorityNum P1 = 1"
| "priorityNum P2 = 2"
| "priorityNum P3 = 3"
| "priorityNum P4 = 4"

datatype Weekday = Mon | Tue | Wed | Thu | Fri | Sat | Sun

record ScheduleBlock =
  id_b :: string
  startTime :: string
  minutes_b :: jsnum

type_synonym WeeklySchedule = "Weekday \<Rightarrow> ScheduleBlock list option"

record Skill =
  id_k :: string
  name :: string
  priority :: "Priority option"
  dailyGoalMinutes :: "jsnum option"
  weeklyGoalMinutes :: "jsnum option"
  schedule :: WeeklySchedule
  createdAtIso_k :: string
  updatedAtIso_k :: string

record Session =
  id_s :: string
  skillId :: string
  minutes_s :: jsnum
  startedAtIso :: string
  createdAtIso_s :: string

section \<open>The completion engine (App.tsx)\<close>

text \<open>
  A \<^verbatim>\<open>Date\<close> is what its local-time getters return: \<^verbatim>\<open>getFullYear()\<close>,
  \<^verbatim>\<open>getMonth()\<close> (0 is January), \<^verbatim>\<open>getDate()\<close>, \<^verbatim>\<open>getDay()\<close> (0 is Sunday),
  \<^verbatim>\<open>getHours()\<close> and \<^verbatim>\<open>getMinutes()\<close>.
\<close>

record Date =
  getFullYear :: int
  getMonth :: nat
  getDate :: nat
  getDay :: nat
  getHours :: nat
  getMinutes :: nat

datatype CompletionStatus = Idle | OnTrack | Overdue

definition weekdayFromDate :: "Date \<Rightarrow> Weekday option" where
  "weekdayFromDate d =
     (let m = [Sun, Mon, Tue, Wed, Thu, Fri, Sat]
      in if getDay d < length m then Some (m ! getDay d) else None)"

text \<open>
  \<^verbatim>\<open>/^(\d{2}):(\d{2})$/\<close>: exactly two digits, a colon, two digits.
\<close>

fun matchesHHMM :: "string \<Rightarrow> bool" where
  "matchesHHMM [h1, h2, c, m1, m2] =
     (isDigit h1 \<and> isDigit h2 \<and> c = CHR '':'' \<and> isDigit m1 \<and> isDigit m2)"
| "matchesHHMM _ = False"

definition parseHHMMToMinutes :: "string \<Rightarrow> int" where
  "parseHHMMToMinutes hhmm =
     (if \<not> matchesHHMM hhmm then 0
      else digitsVal (take 2 hhmm) * 60 + digitsVal (drop 3 hhmm))"

definition minutesSinceMidnight :: "Date \<Rightarrow> int" where
  "minutesSinceMidnight d = int (getHours d) * 60 + int (getMinutes d)"

definition expectedMinutesByNow :: "ScheduleBlock list \<Rightarrow> Date \<Rightarrow> jsnum" where
  "expectedMinutesByNow blocks now =
     (let nowMin = minutesSinceMidnight now
      in foldl (\<lambda>sum b. js_add sum (if Number_isInteger (minutes_b b) then minutes_b b else Num 0))
           (Num 0)
           (filter (\<lambda>b. parseHHMMToMinutes (startTime b) \<le> nowMin) blocks))"

text \<open>
  The sum as the contract words it, for comparison: the minutes of every block of the day
  whose start time is not after now, added up.
\<close>

definition specExpectedMinutesByNow :: "ScheduleBlock list \<Rightarrow> Date \<Rightarrow> jsnum" where
  "specExpectedMinutesByNow blocks now =
     foldl js_add (Num 0)
       (map minutes_b
          (filter (\<lambda>b. parseHHMMToMinutes (startTime b) \<le> minutesSinceMidnight now) blocks))"

text \<open>The blocks that count, and the integer a counted block plans.\<close>

definition counted :: "ScheduleBlock list \<Rightarrow> Date \<Rightarrow> ScheduleBlock list" where
  "counted blocks now =
     filter (\<lambda>b. parseHHMMToMinutes (startTime b) \<le> minutesSinceMidnight now \<and>
                  Number_isInteger (minutes_b b)) blocks"

fun numVal :: "jsnum \<Rightarrow> real" where
  "numVal (Num x) = x"
| "numVal _ = 0"

definition plannedInt :: "ScheduleBlock \<Rightarrow> int" where
  "plannedInt b = \<lfloor>numVal (minutes_b b)\<rfloor>"

definition completionStatus :: "jsnum \<Rightarrow> jsnum \<Rightarrow> CompletionStatus" where
  "completionStatus todayMinutes expectedByNow =
     (if expectedByNow = Num 0 then Idle
      else if js_ge todayMinutes expectedByNow then OnTrack
      else Overdue)"

record Row =
  skill :: Skill
  todayMinutes :: jsnum
  expectedByNow :: jsnum
  status :: CompletionStatus

definition blocksFor :: "Skill \<Rightarrow> Weekday option \<Rightarrow> ScheduleBlock list" where
  "blocksFor sk dayKey =
     (case dayKey of None \<Rightarrow> []
      | Some d \<Rightarrow> (case schedule sk d of None \<Rightarrow> [] | Some bs \<Rightarrow> bs))"

text \<open>
  \<^verbatim>\<open>Dashboard.rows\<close>.  \<open>now\<close> is the \<^verbatim>\<open>new Date()\<close> of the render and \<open>startIso\<close> the
  \<^verbatim>\<open>toISOString()\<close> of the local midnight before it.
\<close>

definition rows :: "Date \<Rightarrow> string \<Rightarrow> Skill list \<Rightarrow> Session list \<Rightarrow> Row list" where
  "rows now startIso skills sessions =
     map (\<lambda>sk.
       let todaySessions =
             filter (\<lambda>ss. skillId ss = id_k sk \<and> str_ge (startedAtIso ss) startIso) sessions;
           today = foldl (\<lambda>sum ss. js_add sum (minutes_s ss)) (Num 0) todaySessions;
           blocks = blocksFor sk (weekdayFromDate now);
           expected = expectedMinutesByNow blocks now
       in \<lparr>skill = sk, todayMinutes = today, expectedByNow = expected,
           status = completionStatus today expected\<rparr>) skills"

text \<open>\<^verbatim>\<open>SkillEditor.completion\<close>, from the minutes already summed for today.\<close>

definition completion :: "Date \<Rightarrow> Skill \<Rightarrow> jsnum \<Rightarrow> CompletionStatus \<times> jsnum" where
  "completion now sk today =
     (let blocks = blocksFor sk (weekdayFromDate now);
          expected = expectedMinutesByNow blocks now
      in (completionStatus today expected, expected))"

text \<open>
  \<^verbatim>\<open>Dashboard.sortedRows\<close>.  \<^verbatim>\<open>localeCompare\<close> belongs to the host and is a parameter.
  \<^verbatim>\<open>Array.prototype.sort\<close> is stable; it is written as the stable insertion sort, which
  every stable sort agrees with under a consistent comparator.
\<close>

definition pr :: "Priority option \<Rightarrow> int" where
  "pr p = (case p of None \<Rightarrow> 999 | Some q \<Rightarrow> priorityNum q)"

definition compareRows :: "(string \<Rightarrow> string \<Rightarrow> int) \<Rightarrow> Row \<Rightarrow> Row \<Rightarrow> int" where
  "compareRows localeCompare a b =
     (let ap = pr (priority (skill a)); bp = pr (priority (skill b))
      in if ap \<noteq> bp then ap - bp else localeCompare (name (skill a)) (name (skill b)))"

fun insertBy :: "('a \<Rightarrow> 'a \<Rightarrow> int) \<Rightarrow> 'a \<Rightarrow> 'a list \<Rightarrow> 'a list" where
  "insertBy cmp x [] = [x]"
| "insertBy cmp x (y # ys) = (if cmp x y \<le> 0 then x # y # ys else y # insertBy cmp x ys)"

definition sortBy :: "('a \<Rightarrow> 'a \<Rightarrow> int) \<Rightarrow> 'a list \<Rightarrow> 'a list" where
  "sortBy cmp xs = foldr (insertBy cmp) xs []"

definition sortedRows :: "(string \<Rightarrow> string \<Rightarrow> int) \<Rightarrow> Row list \<Rightarrow> Row list" where
  "sortedRows localeCompare rs = sortBy (compareRows localeCompare) rs"

text \<open>The rank the sorting contract speaks of: an absent priority is \<open>\<infinity>\<close>.\<close>

definition rank :: "Row \<Rightarrow> enat" where
  "rank r = (case priority (skill r) of None \<Rightarrow> \<infinity> | Some q \<Rightarrow> enat (nat (priorityNum q)))"

section \<open>The duration parser (core/duration.ts)\<close>

datatype DurationParseResult = Ok jsnum | Fail string

text \<open>
  \<^verbatim>\<open>parseInt(s, 10)\<close> on a string of digits, and \<^verbatim>\<open>Number(s)\<close> on digits with an optional
  fraction: the double nearest to the decimal value.
\<close>

definition parseInt10 :: "string \<Rightarrow> jsnum" where
  "parseInt10 ds = fl (of_int (digitsVal ds))"

definition Number_decimal :: "string \<Rightarrow> string \<Rightarrow> jsnum" where
  "Number_decimal ip fp = fl (of_int (digitsVal ip) + of_int (digitsVal fp) / 10 ^ length fp)"

definition minuteUnits :: "string list" where
  "minuteUnits = [''m'', ''min'', ''mins'', ''minute'', ''minutes'']"

definition hourUnits :: "string list" where
  "hourUnits = [''h'', ''hr'', ''hrs'', ''hour'', ''hours'']"

text \<open>\<^verbatim>\<open>/^(\d+)\s*(m|min|mins|minute|minutes)$/\<close>, returning group 1.\<close>

definition minMatch :: "string \<Rightarrow> string option" where
  "minMatch raw =
     (let ds = takeWhile isDigit raw; rest = dropWhile isSpace (dropWhile isDigit raw)
      in if ds \<noteq> [] \<and> rest \<in> set minuteUnits then Some ds else None)"

text \<open>
  \<^verbatim>\<open>/^(\d+(\.\d+)?)\s*(h|hr|hrs|hour|hours)$/\<close>, returning the integer digits and the
  fraction digits of group 1.  Without the optional fraction the rest would have to start
  at the dot, which no unit does.
\<close>

definition hrMatch :: "string \<Rightarrow> (string \<times> string) option" where
  "hrMatch raw =
     (let ip = takeWhile isDigit raw; r1 = dropWhile isDigit raw
      in if ip = [] then None
         else (case r1 of
                 [] \<Rightarrow> None
               | c # r2 \<Rightarrow>
                   if c = CHR ''.'' \<and> takeWhile isDigit r2 \<noteq> [] \<and>
                      dropWhile isSpace (dropWhile isDigit r2) \<in> set hourUnits
                   then Some (ip, takeWhile isDigit r2)
                   else if dropWhile isSpace r1 \<in> set hourUnits then Some (ip, [])
                   else None))"

definition parseDurationToMinutes :: "string \<Rightarrow> DurationParseResult" where
  "parseDurationToMinutes input =
     (let raw = toLowerCase (trim input)
      in if raw = [] then Fail ''Duration is required.''
         else if list_all isDigit raw then
           (let minutes = parseInt10 raw
            in if js_le minutes (Num 0) then Fail ''Minutes must be > 0.'' else Ok minutes)
         else (case minMatch raw of
                 Some g \<Rightarrow>
                   (let minutes = parseInt10 g
                    in if js_le minutes (Num 0) then Fail ''Minutes must be > 0.''
                       else Ok minutes)
               | None \<Rightarrow>
                   (case hrMatch raw of
                      Some (ip, fp) \<Rightarrow>
                        (let hours = Number_decimal ip fp
                         in if \<not> Number_isFinite hours \<or> js_le hours (Num 0)
                            then Fail ''Hours must be > 0.''
                            else (let minutes = Math_round (js_times60 hours)
                                  in if js_le minutes (Num 0) then Fail ''Duration too small.''
                                     else Ok minutes))
                    | None \<Rightarrow>
                        Fail ''Invalid duration. Examples: 30, 30min, 45m, 1hr, 0.5hr. Decimals allowed only for hours.'')))"

section \<open>Untyped values\<close>

text \<open>
  What \<^verbatim>\<open>JSON.parse\<close> returns, and \<^verbatim>\<open>undefined\<close> for what a property read finds
  missing.  An object is a finite map from keys to values.
\<close>

datatype json =
    JUndefined
  | JNull
  | JBool bool
  | JNum jsnum
  | JStr string
  | JArr "json list"
  | JObj "(string, json) fmap"

text \<open>The decimal key of an array index.\<close>

fun indexKey :: "nat \<Rightarrow> string" where
  "indexKey n =
     (if n < 10 then [''0123456789'' ! n]
      else indexKey (n div 10) @ [''0123456789'' ! (n mod 10)])"

text \<open>
  The own enumerable properties of a value, which is what the spread \<^verbatim>\<open>{...p}\<close> copies
  and what \<^verbatim>\<open>p.k\<close> reads for the keys used here.
\<close>

fun ownProps :: "json \<Rightarrow> (string, json) fmap" where
  "ownProps (JObj m) = m"
| "ownProps (JArr xs) = fmap_of_list (zip (map indexKey [0..<length xs]) xs)"
| "ownProps _ = fmempty"

definition getProp :: "json \<Rightarrow> string \<Rightarrow> json" where
  "getProp v k = (case fmlookup (ownProps v) k of None \<Rightarrow> JUndefined | Some x \<Rightarrow> x)"

fun truthy :: "json \<Rightarrow> bool" where
  "truthy JUndefined = False"
| "truthy JNull = False"
| "truthy (JBool b) = b"
| "truthy (JNum n) = (n \<noteq> Num 0 \<and> n \<noteq> NaN)"
| "truthy (JStr s) = (s \<noteq> [])"
| "truthy (JArr xs) = True"
| "truthy (JObj m) = True"

text \<open>\<^verbatim>\<open>typeof v === "object"\<close>, \<^verbatim>\<open>typeof v === "string"\<close>, \<^verbatim>\<open>Array.isArray(v)\<close>.\<close>

fun typeofObject :: "json \<Rightarrow> bool" where
  "typeofObject JNull = True"
| "typeofObject (JArr xs) = True"
| "typeofObject (JObj m) = True"
| "typeofObject _ = False"

fun typeofString :: "json \<Rightarrow> bool" where
  "typeofString (JStr s) = True"
| "typeofString _ = False"

fun Array_isArray :: "json \<Rightarrow> bool" where
  "Array_isArray (JArr xs) = True"
| "Array_isArray _ = False"

section \<open>Defaults (core/state.ts)\<close>

definition defaultWeeklySchedule :: WeeklySchedule where
  "defaultWeeklySchedule = (\<lambda>d. Some [])"

definition defaultPayload :: json where
  "defaultPayload =
     JObj (fmap_of_list [(''skills'', JArr []), (''sessions'', JArr []), (''overrides'', JArr [])])"

section \<open>Persistence (core/storage.ts)\<close>

record 'p AppData =
  version :: nat
  updatedAtIso :: string
  payload :: 'p

datatype js_error = Error string | SyntaxError string | TypeError string

fun message :: "js_error \<Rightarrow> string" where
  "message (Error m) = m"
| "message (SyntaxError m) = m"
| "message (TypeError m) = m"

type_synonym Storage = "string \<rightharpoonup> string"

definition STORAGE_KEY :: string where
  "STORAGE_KEY = ''pa.appData.v1''"

text \<open>\<^verbatim>\<open>Array.isArray(v) ? v : []\<close>\<close>

definition arrayOrEmpty :: "json \<Rightarrow> json" where
  "arrayOrEmpty v = (if Array_isArray v then v else JArr [])"

definition normalizePayload :: "json \<Rightarrow> json" where
  "normalizePayload p =
     (let base = defaultPayload
      in if \<not> truthy p \<or> \<not> typeofObject p then base
         else JObj (fmupd ''overrides'' (arrayOrEmpty (getProp p ''overrides''))
                   (fmupd ''sessions'' (arrayOrEmpty (getProp p ''sessions''))
                   (fmupd ''skills'' (arrayOrEmpty (getProp p ''skills''))
                   (ownProps base ++\<^sub>f ownProps p)))))"

text \<open>
  \<^verbatim>\<open>parsed && parsed.version === 1 && typeof parsed.updatedAtIso === "string"\<close>, as the
  condition of \<^verbatim>\<open>if (!isValid)\<close> reads it.
\<close>

definition isValid :: "json \<Rightarrow> bool" where
  "isValid parsed =
     (truthy parsed \<and> getProp parsed ''version'' = JNum (Num 1) \<and>
      typeofString (getProp parsed ''updatedAtIso''))"

definition freshDefault :: "string \<Rightarrow> json AppData" where
  "freshDefault nowIso = \<lparr>version = 1, updatedAtIso = nowIso, payload = defaultPayload\<rparr>"

definition validated :: "string \<Rightarrow> json \<Rightarrow> json AppData" where
  "validated nowIso parsed =
     \<lparr>version = 1,
      updatedAtIso = (case getProp parsed ''updatedAtIso'' of JStr s \<Rightarrow> s | _ \<Rightarrow> nowIso),
      payload = normalizePayload (getProp parsed ''payload'')\<rparr>"

text \<open>
  \<^verbatim>\<open>JSON.parse\<close> belongs to the host and is a parameter; \<open>Inl\<close> is the exception it throws.
  \<open>nowIso\<close> is what \<^verbatim>\<open>nowIso()\<close> returns during the call.
\<close>

definition loadAppData ::
  "(string \<Rightarrow> js_error + json) \<Rightarrow> string \<Rightarrow> Storage \<Rightarrow> json AppData" where
  "loadAppData JSON_parse nowIso store =
     (case store STORAGE_KEY of
        None \<Rightarrow> freshDefault nowIso
      | Some raw \<Rightarrow>
          if raw = [] then freshDefault nowIso
          else (case JSON_parse raw of
                  Inl e \<Rightarrow> freshDefault nowIso
                | Inr parsed \<Rightarrow>
                    if \<not> isValid parsed then freshDefault nowIso
                    else validated nowIso parsed))"

text \<open>\<^verbatim>\<open>JSON.stringify\<close> is a parameter as well.  The result is the saved copy and the store.\<close>

definition saveAppData ::
  "(json AppData \<Rightarrow> string) \<Rightarrow> string \<Rightarrow> json AppData \<Rightarrow> Storage \<Rightarrow> json AppData \<times> Storage" where
  "saveAppData JSON_stringify nowIso data store =
     (let toSave = \<lparr>version = 1, updatedAtIso = nowIso, payload = normalizePayload (payload data)\<rparr>
      in (toSave, store(STORAGE_KEY \<mapsto> JSON_stringify toSave)))"

definition importBackup ::
  "(string \<Rightarrow> js_error + json) \<Rightarrow> string \<Rightarrow> string \<Rightarrow> js_error + json AppData" where
  "importBackup JSON_parse nowIso fileText =
     (case JSON_parse fileText of
        Inl e \<Rightarrow> Inl e
      | Inr parsed \<Rightarrow>
          if \<not> isValid parsed then Inl (Error ''Invalid backup file format (expected version 1).'')
          else Inr (validated nowIso parsed))"

subsection \<open>The earlier revision (src/core/storage.ts)\<close>

text \<open>
  The file under \<^verbatim>\<open>src/core/storage.ts\<close> is the revision before \<open>normalizePayload\<close>:
  its payload is any object, its default payload is the empty object, and a stored value
  whose \<open>payload\<close> is not of type object is rejected like a wrong version.
\<close>

fun stringOf :: "json \<Rightarrow> string" where
  "stringOf (JStr s) = s"
| "stringOf _ = []"

definition freshDefaultLegacy :: "string \<Rightarrow> json AppData" where
  "freshDefaultLegacy nowIso = \<lparr>version = 1, updatedAtIso = nowIso, payload = JObj fmempty\<rparr>"

definition loadAppDataLegacy ::
  "(string \<Rightarrow> js_error + json) \<Rightarrow> string \<Rightarrow> Storage \<Rightarrow> json AppData" where
  "loadAppDataLegacy JSON_parse nowIso store =
     (case store STORAGE_KEY of
        None \<Rightarrow> freshDefaultLegacy nowIso
      | Some raw \<Rightarrow>
          if raw = [] then freshDefaultLegacy nowIso
          else (case JSON_parse raw of
                  Inl e \<Rightarrow> freshDefaultLegacy nowIso
                | Inr parsed \<Rightarrow>
                    if getProp parsed ''version'' \<noteq> JNum (Num 1) \<or>
                       \<not> typeofString (getProp parsed ''updatedAtIso'') \<or>
                       \<not> typeofObject (getProp parsed ''payload'')
                    then freshDefaultLegacy nowIso
                    else \<lparr>version = 1, updatedAtIso = stringOf (getProp parsed ''updatedAtIso''),
                          payload = getProp parsed ''payload''\<rparr>))"

section \<open>The application state (App.tsx)\<close>

record AppState =
  app :: "json AppData"
  localStorage :: Storage
  error :: "string option"

definition commit ::
  "(json AppData \<Rightarrow> string) \<Rightarrow> string \<Rightarrow> json AppData \<Rightarrow> AppState \<Rightarrow> AppState" where
  "commit JSON_stringify nowIso next st =
     (let (saved, store) = saveAppData JSON_stringify nowIso next (localStorage st)
      in st\<lparr>app := saved, localStorage := store\<rparr>)"

text \<open>\<open>file\<close> is the text of the chosen file, if one was chosen.\<close>

definition onPickImportFile ::
  "(string \<Rightarrow> js_error + json) \<Rightarrow> (json AppData \<Rightarrow> string) \<Rightarrow> string \<Rightarrow> string option \<Rightarrow>
   AppState \<Rightarrow> AppState" where
  "onPickImportFile JSON_parse JSON_stringify nowIso file st =
     (let st1 = st\<lparr>error := None\<rparr>
      in case file of
           None \<Rightarrow> st1
         | Some fileText \<Rightarrow>
             (case importBackup JSON_parse nowIso fileText of
                Inr imported \<Rightarrow> commit JSON_stringify nowIso imported st1
              | Inl err \<Rightarrow> st1\<lparr>error := Some (message err)\<rparr>))"

text \<open>
  \<^verbatim>\<open>s.id !== skillId\<close> for each element of \<^verbatim>\<open>skills\<close>; reading a property of
  \<^verbatim>\<open>null\<close> or \<^verbatim>\<open>undefined\<close> throws.
\<close>

fun filterSkills :: "string \<Rightarrow> json list \<Rightarrow> js_error + json list" where
  "filterSkills sid [] = Inr []"
| "filterSkills sid (s # ss) =
     (if s = JNull \<or> s = JUndefined then Inl (TypeError ''Cannot read properties'')
      else (case filterSkills sid ss of
              Inl e \<Rightarrow> Inl e
            | Inr r \<Rightarrow> Inr (if getProp s ''id'' \<noteq> JStr sid then s # r else r)))"

definition deleteSkill ::
  "(json AppData \<Rightarrow> string) \<Rightarrow> string \<Rightarrow> string \<Rightarrow> AppState \<Rightarrow> js_error + AppState" where
  "deleteSkill JSON_stringify nowIso sid st =
     (case getProp (payload (app st)) ''skills'' of
        JArr xs \<Rightarrow>
          (case filterSkills sid xs of
             Inl e \<Rightarrow> Inl e
           | Inr skills \<Rightarrow>
               Inr (commit JSON_stringify nowIso
                      ((app st)\<lparr>payload :=
                          JObj (fmupd ''skills'' (JArr skills) (ownProps (payload (app st))))\<rparr>)
                      st))
      | _ \<Rightarrow> Inl (TypeError ''filter is not a function''))"

section \<open>The session ledger (core/sessions.ts)\<close>

record AppPayload =
  skills :: "Skill list"
  sessions :: "Session list"
  overrides :: "json list"

definition addSession :: "AppPayload \<Rightarrow> Session \<Rightarrow> AppPayload" where
  "addSession p s = p\<lparr>sessions := s # sessions p\<rparr>"

text \<open>
  Modelled from the spec: \<^verbatim>\<open>core/time.ts\<close>, which \<^verbatim>\<open>sessions.ts\<close> imports
  \<^verbatim>\<open>startOfTodayLocal\<close> and \<^verbatim>\<open>isSameLocalDay\<close> from, is not among the sources.  The spec
  has the comparison use the local calendar date, year, month and day in the viewer's time
  zone; the start of today is the local midnight before now.  \<open>newDate\<close> is the host's
  \<^verbatim>\<open>new Date(iso)\<close>, read in the viewer's zone.
\<close>

definition startOfTodayLocal :: "Date \<Rightarrow> Date" where
  "startOfTodayLocal now = now\<lparr>getHours := 0, getMinutes := 0\<rparr>"

definition isSameLocalDay :: "(string \<Rightarrow> Date) \<Rightarrow> string \<Rightarrow> Date \<Rightarrow> bool" where
  "isSameLocalDay newDate stamp day =
     (let d = newDate stamp
      in getFullYear d = getFullYear day \<and> getMonth d = getMonth day \<and> getDate d = getDate day)"

definition localDay :: "Date \<Rightarrow> int \<times> nat \<times> nat" where
  "localDay d = (getFullYear d, getMonth d, getDate d)"

definition minutesTodayForSkill ::
  "(string \<Rightarrow> Date) \<Rightarrow> Date \<Rightarrow> AppPayload \<Rightarrow> string \<Rightarrow> jsnum" where
  "minutesTodayForSkill newDate now p sid =
     (let today = startOfTodayLocal now
      in foldl (\<lambda>sum s. js_add sum (minutes_s s)) (Num 0)
           (filter (\<lambda>s. skillId s = sid \<and> isSameLocalDay newDate (startedAtIso s) today)
              (sessions p)))"

subsection \<open>A host clock at a fixed offset from UTC\<close>

text \<open>
  For concrete instants: \<^verbatim>\<open>new Date(iso)\<close> of a \<^verbatim>\<open>YYYY-MM-DDTHH:MM:SS.sssZ\<close> string in
  a zone \<open>offset\<close> minutes east of UTC, by the usual day count of the proleptic Gregorian
  calendar (day 0 is 1 January 1970, a Thursday).
\<close>

definition daysFromCivil :: "int \<Rightarrow> int \<Rightarrow> int \<Rightarrow> int" where
  "daysFromCivil y m d =
     (let y1 = (if m \<le> 2 then y - 1 else y);
          era = y1 div 400;
          yoe = y1 - era * 400;
          doy = (153 * (if 2 < m then m - 3 else m + 9) + 2) div 5 + d - 1;
          doe = yoe * 365 + yoe div 4 - yoe div 100 + doy
      in era * 146097 + doe - 719468)"

definition civilFromDays :: "int \<Rightarrow> int \<times> int \<times> int" where
  "civilFromDays z =
     (let z1 = z + 719468;
          era = z1 div 146097;
          doe = z1 - era * 146097;
          yoe = (doe - doe div 1460 + doe div 36524 - doe div 146096) div 365;
          doy = doe - (365 * yoe + yoe div 4 - yoe div 100);
          mp = (5 * doy + 2) div 153;
          d = doy - (153 * mp + 2) div 5 + 1;
          m = (if mp < 10 then mp + 3 else mp - 9)
      in (yoe + era * 400 + (if m \<le> 2 then 1 else 0), m, d))"

definition epochMinutes :: "string \<Rightarrow> int" where
  "epochMinutes stamp =
     daysFromCivil (digitsVal (take 4 stamp)) (digitsVal (take 2 (drop 5 stamp)))
       (digitsVal (take 2 (drop 8 stamp))) * 1440
     + digitsVal (take 2 (drop 11 stamp)) * 60 + digitsVal (take 2 (drop 14 stamp))"

definition dateAtOffset :: "int \<Rightarrow> string \<Rightarrow> Date" where
  "dateAtOffset offset stamp =
     (let local = epochMinutes stamp + offset;
          day = local div 1440;
          (y, m, d) = civilFromDays day
      in \<lparr>getFullYear = y, getMonth = nat (m - 1), getDate = nat d,
          getDay = nat ((day + 4) mod 7),
          getHours = nat ((local mod 1440) div 60), getMinutes = nat (local mod 60)\<rparr>)"

section \<open>Concrete inputs\<close>

text \<open>
  The skill of the contract's example: one block, 30 minutes from 06:00, here on Mondays;
  11 March 2024 is a Monday.  The session is the one logged at 07:00 that day, in a zone
  on UTC.
\<close>

definition exampleBlock :: ScheduleBlock where
  "exampleBlock = \<lparr>id_b = ''b1'', startTime = ''06:00'', minutes_b = Num 30\<rparr>"

definition exampleSkill :: Skill where
  "exampleSkill =
     \<lparr>id_k = ''s1'', name = ''Learn SQL'', priority = Some P2,
      dailyGoalMinutes = Some (Num 30), weeklyGoalMinutes = Some (Num 180),
      schedule = (\<lambda>d. Some (if d = Mon then [exampleBlock] else [])),
      createdAtIso_k = ''2024-03-01T09:00:00.000Z'', updatedAtIso_k = ''2024-03-01T09:00:00.000Z''\<rparr>"

definition mondayAt :: "nat \<Rightarrow> nat \<Rightarrow> Date" where
  "mondayAt h m =
     \<lparr>getFullYear = 2024, getMonth = 2, getDate = 11, getDay = 1, getHours = h, getMinutes = m\<rparr>"

definition mondayStartIso :: string where
  "mondayStartIso = ''2024-03-11T00:00:00.000Z''"

definition exampleSession :: Session where
  "exampleSession =
     \<lparr>id_s = ''x1'', skillId = ''s1'', minutes_s = Num 30,
      startedAtIso = ''2024-03-11T07:00:00.000Z'', createdAtIso_s = ''2024-03-11T07:00:00.000Z''\<rparr>"

text \<open>
  The time strings of the system are the ones \<^verbatim>\<open>toISOString\<close> writes,
  \<^verbatim>\<open>YYYY-MM-DDTHH:MM:SS.sssZ\<close>.
\<close>

definition isIsoInstant :: "string \<Rightarrow> bool" where
  "isIsoInstant s =
     (length s = 24 \<and> list_all isDigit (take 4 s) \<and> s ! 4 = CHR ''-'' \<and>
      list_all isDigit (take 2 (drop 5 s)) \<and> s ! 7 = CHR ''-'' \<and>
      list_all isDigit (take 2 (drop 8 s)) \<and> s ! 10 = CHR ''T'' \<and>
      list_all isDigit (take 2 (drop 11 s)) \<and> s ! 13 = CHR '':'' \<and>
      list_all isDigit (take 2 (drop 14 s)) \<and> s ! 16 = CHR '':'' \<and>
      list_all isDigit (take 2 (drop 17 s)) \<and> s ! 19 = CHR ''.'' \<and>
      list_all isDigit (take 3 (drop 20 s)) \<and> s ! 23 = CHR ''Z'')"

text \<open>
  Documents as the host's parser returns them, a parser that returns a given document,
  and a serializer.
\<close>

definition parsesTo :: "json \<Rightarrow> string \<Rightarrow> js_error + json" where
  "parsesTo doc fileText = Inr doc"

definition stringifyStub :: "json AppData \<Rightarrow> string" where
  "stringifyStub d = ''saved at '' @ updatedAtIso d"

definition docVersion2 :: json where
  "docVersion2 =
     JObj (fmap_of_list
       [(''version'', JNum (Num 2)), (''updatedAtIso'', JStr ''2024-03-11T07:00:00.000Z''),
        (''payload'', defaultPayload)])"

definition docNoTime :: json where
  "docNoTime =
     JObj (fmap_of_list
       [(''version'', JNum (Num 1)), (''updatedAtIso'', JStr ''not a time''),
        (''payload'', defaultPayload)])"

definition docNoPayload :: json where
  "docNoPayload =
     JObj (fmap_of_list
       [(''version'', JNum (Num 1)), (''updatedAtIso'', JStr ''2020-01-01T00:00:00.000Z'')])"

definition loosePayload :: json where
  "loosePayload =
     JObj (fmap_of_list
       [(''skills'', JStr ''none''), (''sessions'', JArr [JNum (Num 1)]),
        (''theme'', JStr ''dark'')])"

definition docLoose :: json where
  "docLoose =
     JObj (fmap_of_list
       [(''version'', JNum (Num 1)), (''updatedAtIso'', JStr ''2024-03-11T07:00:00.000Z''),
        (''payload'', loosePayload)])"

definition exampleState :: AppState where
  "exampleState =
     \<lparr>app = \<lparr>version = 1, updatedAtIso = ''2024-03-11T07:00:00.000Z'',
              payload = JObj (fmap_of_list
                [(''skills'', JArr [JObj (fmap_of_list [(''id'', JStr ''s1'')]),
                                     JObj (fmap_of_list [(''id'', JStr ''s2'')])]),
                 (''sessions'', JArr [JObj (fmap_of_list
                    [(''id'', JStr ''x1''), (''skillId'', JStr ''s1''),
                     (''minutes'', JNum (Num 30))])]),
                 (''overrides'', JArr [])])\<rparr>,
      localStorage = Map.empty, error = None\<rparr>"

text \<open>
  A viewer five hours west of UTC, two minutes after the local midnight that begins
  10 March 2024, with a session logged at 23:59 the evening before and one at 00:01.
\<close>

definition nightStamp :: string where
  "nightStamp = ''2024-03-10T05:02:00.000Z''"

definition nightStartIso :: string where
  "nightStartIso = ''2024-03-10T05:00:00.000Z''"

definition lateYesterday :: Session where
  "lateYesterday =
     \<lparr>id_s = ''x2'', skillId = ''s1'', minutes_s = Num 20,
      startedAtIso = ''2024-03-10T04:59:00.000Z'', createdAtIso_s = ''2024-03-10T04:59:00.000Z''\<rparr>"

definition earlyToday :: Session where
  "earlyToday =
     \<lparr>id_s = ''x3'', skillId = ''s1'', minutes_s = Num 15,
      startedAtIso = ''2024-03-10T05:01:00.000Z'', createdAtIso_s = ''2024-03-10T05:01:00.000Z''\<rparr>"

definition nightPayload :: AppPayload where
  "nightPayload = \<lparr>skills = [exampleSkill], sessions = [earlyToday, lateYesterday], overrides = []\<rparr>"

text \<open>A comparator of names, by length, and rows to sort.\<close>

definition lengthCompare :: "string \<Rightarrow> string \<Rightarrow> int" where
  "lengthCompare s t = int (length s) - int (length t)"

definition rowOf :: "string \<Rightarrow> Priority option \<Rightarrow> Row" where
  "rowOf n p =
     \<lparr>skill = exampleSkill\<lparr>name := n, priority := p\<rparr>, todayMinutes = Num 0,
      expectedByNow = Num 0, status = Idle\<rparr>"

definition exampleRows :: "Row list" where
  "exampleRows = [rowOf ''Zen'' None, rowOf ''Learn SQL'' (Some P2), rowOf ''Go'' (Some P1),
                  rowOf ''Art'' (Some P2)]"

section \<open>Arithmetic of doubles\<close>

lemma bitlen_numeral_simps:
  "bitlen 1 = 1"
  "bitlen (numeral (Num.Bit0 k)) = bitlen (numeral k) + 1"
  "bitlen (numeral (Num.Bit1 k)) = bitlen (numeral k) + 1"
  "bitlen (numeral Num.One) = 1"
  by (subst compute_bitlen, simp)+

lemmas fl_eval = fl_def flpos_def ilog2_def pow2_def roundTiesEven_def Let_def bitlen_numeral_simps

lemma roundTiesEven_of_int: "roundTiesEven (of_int m) = m"
  by (simp add: roundTiesEven_def)

lemma flpos_int_exact:
  assumes "0 < n" "n < 2 ^ 53"
  shows "flpos (of_int n) = Num (of_int n)"
proof -
  let ?e = "bitlen n - 1"
  have b: "2 ^ nat ?e \<le> n" using bitlen_bounds[OF assms(1)] by simp
  have e0: "0 \<le> ?e" using assms(1) by (simp add: bitlen_alt_def)
  have lt: "(2::int) ^ nat ?e < 2 ^ 53" using b assms(2) by linarith
  have "nat ?e < 53" by (rule power_less_imp_less_exp[OF _ lt]) simp
  then have e52: "?e \<le> 52" by linarith
  have il: "ilog2 (of_int n) = ?e" using assms(1) by (simp add: ilog2_def)
  define j where "j = nat (52 - ?e)"
  have u: "pow2 (max ?e (- 1022) - 52) = 1 / 2 ^ j"
  proof (cases "?e = 52")
    case True
    then show ?thesis by (simp add: pow2_def j_def)
  next
    case False
    with e52 have "?e - 52 < 0" by simp
    moreover have "max ?e (- 1022) = ?e" using e0 by simp
    ultimately show ?thesis by (simp add: pow2_def j_def)
  qed
  have q: "real_of_int n / (1 / 2 ^ j) = of_int (n * 2 ^ j)" by simp
  have y: "real_of_int (n * 2 ^ j) * (1 / 2 ^ j) = of_int n" by simp
  have small: "\<not> pow2 1024 \<le> real_of_int n"
  proof -
    have "real_of_int n < 2 ^ 53" using assms(2) by (metis of_int_less_numeral_power_cancel_iff)
    also have "\<dots> \<le> (2::real) ^ 1024" by (rule power_increasing) simp_all
    finally show ?thesis by (simp add: pow2_def)
  qed
  show ?thesis
    unfolding flpos_def il u q roundTiesEven_of_int Let_def y using small by simp
qed

lemma fl_int_exact:
  assumes "\<bar>n\<bar> < 2 ^ 53"
  shows "fl (of_int n) = Num (of_int n)"
proof -
  consider "n = 0" | "0 < n" | "n < 0" by linarith
  then show ?thesis
  proof cases
    case 1
    then show ?thesis by (simp add: fl_def)
  next
    case 2
    with assms have "n < 2 ^ 53" by simp
    with 2 show ?thesis by (simp add: fl_def flpos_int_exact)
  next
    case 3
    with assms have "0 < - n" "- n < 2 ^ 53" by simp_all
    then have "flpos (of_int (- n)) = Num (of_int (- n))" by (rule flpos_int_exact)
    with 3 show ?thesis by (simp add: fl_def)
  qed
qed

lemma js_add_zero_right: "js_add s (Num 0) = s"
  by (cases s) simp_all

lemma js_add_int_exact:
  assumes "\<bar>a + b\<bar> < 2 ^ 53"
  shows "js_add (Num (of_int a)) (Num (of_int b)) = Num (of_int (a + b))"
  using fl_int_exact[OF assms] by simp

section \<open>Expected minutes by now\<close>

lemmas hhmm_eval = parseHHMMToMinutes_def isDigit_def digitsVal_def digitVal_def minutesSinceMidnight_def

lemma expected_append:
  "expectedMinutesByNow (xs @ ys) now =
     foldl (\<lambda>sum b. js_add sum (if Number_isInteger (minutes_b b) then minutes_b b else Num 0))
       (expectedMinutesByNow xs now)
       (filter (\<lambda>b. parseHHMMToMinutes (startTime b) \<le> minutesSinceMidnight now) ys)"
  by (simp add: expectedMinutesByNow_def Let_def)

lemma minutesSinceMidnight_nonneg: "0 \<le> minutesSinceMidnight now"
  by (simp add: minutesSinceMidnight_def)

text \<open>
  Claim C10.  A block whose \<open>minutes\<close> is not an integer adds nothing to the expected
  total, wherever it stands in the list and whether or not its start has passed.  A start
  time that does not match \<^verbatim>\<open>HH:MM\<close> is minute 0, so such a block is selected at every
  time of day, and with integer minutes its minutes are added.
\<close>

theorem noninteger_minutes_never_counted_malformed_start_always:
  "(\<not> Number_isInteger (minutes_b b) \<longrightarrow>
      expectedMinutesByNow (xs @ b # ys) now = expectedMinutesByNow (xs @ ys) now) \<and>
   (\<not> matchesHHMM (startTime b) \<longrightarrow>
      parseHHMMToMinutes (startTime b) = 0 \<and>
      (Number_isInteger (minutes_b b) \<longrightarrow>
         expectedMinutesByNow (xs @ [b]) now = js_add (expectedMinutesByNow xs now) (minutes_b b)))"
proof (intro conjI impI)
  assume "\<not> Number_isInteger (minutes_b b)"
  then show "expectedMinutesByNow (xs @ b # ys) now = expectedMinutesByNow (xs @ ys) now"
    by (simp add: expectedMinutesByNow_def Let_def js_add_zero_right)
next
  assume m: "\<not> matchesHHMM (startTime b)"
  then show z: "parseHHMMToMinutes (startTime b) = 0"
    by (simp add: parseHHMMToMinutes_def)
  assume "Number_isInteger (minutes_b b)"
  with z show "expectedMinutesByNow (xs @ [b]) now = js_add (expectedMinutesByNow xs now) (minutes_b b)"
    by (simp add: expected_append minutesSinceMidnight_nonneg)
qed

theorem noninteger_minutes_never_counted_malformed_start_always_witness:
  "expectedMinutesByNow
     [\<lparr>id_b = ''a'', startTime = ''06:00'', minutes_b = Num 30\<rparr>,
      \<lparr>id_b = ''b'', startTime = ''06:30'', minutes_b = Num (61 / 2)\<rparr>]
     \<lparr>getFullYear = 2024, getMonth = 2, getDate = 11, getDay = 1, getHours = 7, getMinutes = 0\<rparr>
   = Num 30 \<and>
   parseHHMMToMinutes ''6:00'' = 0 \<and>
   expectedMinutesByNow [\<lparr>id_b = ''c'', startTime = ''6:00'', minutes_b = Num 30\<rparr>]
     \<lparr>getFullYear = 2024, getMonth = 2, getDate = 11, getDay = 1, getHours = 0, getMinutes = 0\<rparr>
   = Num 30"
  using noninteger_minutes_never_counted_malformed_start_always
          [of "\<lparr>id_b = ''b'', startTime = ''06:30'', minutes_b = Num (61 / 2)\<rparr>"
              "[\<lparr>id_b = ''a'', startTime = ''06:00'', minutes_b = Num 30\<rparr>]" "[]"
              "\<lparr>getFullYear = 2024, getMonth = 2, getDate = 11, getDay = 1, getHours = 7, getMinutes = 0\<rparr>"]
        noninteger_minutes_never_counted_malformed_start_always
          [of "\<lparr>id_b = ''c'', startTime = ''6:00'', minutes_b = Num 30\<rparr>" "[]" "[]"
              "\<lparr>getFullYear = 2024, getMonth = 2, getDate = 11, getDay = 1, getHours = 0, getMinutes = 0\<rparr>"]
  by (simp add: expectedMinutesByNow_def Let_def hhmm_eval)

text \<open>
  A block of 30.5 minutes from 06:00, at 07:00: the sum of the minutes of the blocks that
  have started is 30.5, and \<open>expectedMinutesByNow\<close> is 0.
\<close>

theorem expectedMinutesByNow_spec_counterexample:
  "expectedMinutesByNow [\<lparr>id_b = ''b'', startTime = ''06:00'', minutes_b = Num (61 / 2)\<rparr>]
     \<lparr>getFullYear = 2024, getMonth = 2, getDate = 11, getDay = 1, getHours = 7, getMinutes = 0\<rparr>
   \<noteq> specExpectedMinutesByNow [\<lparr>id_b = ''b'', startTime = ''06:00'', minutes_b = Num (61 / 2)\<rparr>]
     \<lparr>getFullYear = 2024, getMonth = 2, getDate = 11, getDay = 1, getHours = 7, getMinutes = 0\<rparr>"
  by (simp add: expectedMinutesByNow_def specExpectedMinutesByNow_def Let_def hhmm_eval)

lemma isInteger_planned:
  "Number_isInteger (minutes_b b) \<Longrightarrow> minutes_b b = Num (of_int (plannedInt b))"
  by (cases "minutes_b b") (simp_all add: plannedInt_def)

lemma expected_as_int_fold:
  "foldl (\<lambda>sum b. js_add sum (if Number_isInteger (minutes_b b) then minutes_b b else Num 0)) acc
     (filter (\<lambda>b. parseHHMMToMinutes (startTime b) \<le> minutesSinceMidnight now) bs)
   = foldl (\<lambda>s z. js_add s (Num (of_int z))) acc (map plannedInt (counted bs now))"
proof (induction bs arbitrary: acc)
  case Nil
  then show ?case by (simp add: counted_def)
next
  case (Cons b bs)
  then show ?case
    by (auto simp: counted_def js_add_zero_right isInteger_planned[symmetric])
qed

lemma foldl_int_sum:
  "\<bar>a\<bar> + (\<Sum>z\<leftarrow>zs. \<bar>z\<bar>) < 2 ^ 53 \<Longrightarrow>
   foldl (\<lambda>s z. js_add s (Num (of_int z))) (Num (of_int a)) zs = Num (of_int (a + sum_list zs))"
proof (induction zs arbitrary: a)
  case Nil
  then show ?case by simp
next
  case (Cons z zs)
  let ?f = "\<lambda>s z. js_add s (Num (real_of_int z))"
  have nn: "0 \<le> (\<Sum>z\<leftarrow>zs. \<bar>z\<bar>)" by (rule sum_list_nonneg) auto
  have ab: "\<bar>a + z\<bar> < 2 ^ 53" using Cons.prems nn by simp
  have rest: "\<bar>a + z\<bar> + (\<Sum>z\<leftarrow>zs. \<bar>z\<bar>) < 2 ^ 53" using Cons.prems by simp
  have step: "js_add (Num (of_int a)) (Num (of_int z)) = Num (of_int (a + z))"
    by (rule js_add_int_exact[OF ab])
  have "foldl ?f (Num (of_int a)) (z # zs) = foldl ?f (Num (of_int (a + z))) zs"
    by (simp only: foldl_Cons step)
  also have "\<dots> = Num (of_int ((a + z) + sum_list zs))"
    by (rule Cons.IH[OF rest])
  finally show ?case by (simp only: sum_list.Cons add.assoc)
qed

lemma expected_exact:
  assumes "(\<Sum>b\<leftarrow>counted blocks now. \<bar>plannedInt b\<bar>) < 2 ^ 53"
  shows "expectedMinutesByNow blocks now = Num (of_int (\<Sum>b\<leftarrow>counted blocks now. plannedInt b))"
proof -
  have "expectedMinutesByNow blocks now
      = foldl (\<lambda>s z. js_add s (Num (of_int z))) (Num (of_int 0)) (map plannedInt (counted blocks now))"
    by (simp add: expectedMinutesByNow_def Let_def expected_as_int_fold)
  also have "\<dots> = Num (of_int (0 + sum_list (map plannedInt (counted blocks now))))"
    by (rule foldl_int_sum) (use assms in \<open>simp add: comp_def\<close>)
  finally show ?thesis by simp
qed

lemma counted_mset:
  "mset blocks' = mset blocks \<Longrightarrow> mset (counted blocks' now) = mset (counted blocks now)"
  by (simp add: counted_def)

lemma sum_list_mset_cong:
  fixes f :: "'a \<Rightarrow> int"
  shows "mset xs = mset ys \<Longrightarrow> (\<Sum>x\<leftarrow>xs. f x) = (\<Sum>x\<leftarrow>ys. f x)"
  by (metis mset_map sum_mset_sum_list)

text \<open>
  Claim C1, amended.  \<open>expectedMinutesByNow\<close> is the sum of the minutes of the blocks
  whose start time, in minutes since midnight, is at most the current one and whose minutes
  are an integer; the other blocks add nothing.  As long as the absolute values of the
  counted minutes add up to less than \<open>2^53\<close>, every partial sum is a double, the
  result is that integer, and it is the same for every permutation of the list.
\<close>

theorem expectedMinutesByNow_counted_sum:
  assumes "(\<Sum>b\<leftarrow>counted blocks now. \<bar>plannedInt b\<bar>) < 2 ^ 53"
      and "mset blocks' = mset blocks"
  shows "expectedMinutesByNow blocks now = Num (of_int (\<Sum>b\<leftarrow>counted blocks now. plannedInt b)) \<and>
         expectedMinutesByNow blocks' now = expectedMinutesByNow blocks now"
proof -
  have c: "mset (counted blocks' now) = mset (counted blocks now)"
    using assms(2) by (rule counted_mset)
  have s1: "(\<Sum>b\<leftarrow>counted blocks' now. \<bar>plannedInt b\<bar>) = (\<Sum>b\<leftarrow>counted blocks now. \<bar>plannedInt b\<bar>)"
    using c by (rule sum_list_mset_cong)
  have s2: "(\<Sum>b\<leftarrow>counted blocks' now. plannedInt b) = (\<Sum>b\<leftarrow>counted blocks now. plannedInt b)"
    using c by (rule sum_list_mset_cong)
  have "expectedMinutesByNow blocks' now = Num (of_int (\<Sum>b\<leftarrow>counted blocks' now. plannedInt b))"
    by (rule expected_exact) (use assms(1) s1 in simp)
  then show ?thesis using expected_exact[OF assms(1)] s2 by simp
qed

theorem expectedMinutesByNow_counted_sum_witness:
  "expectedMinutesByNow
     [\<lparr>id_b = ''a'', startTime = ''06:00'', minutes_b = Num 30\<rparr>,
      \<lparr>id_b = ''b'', startTime = ''06:30'', minutes_b = Num (61 / 2)\<rparr>,
      \<lparr>id_b = ''c'', startTime = ''08:00'', minutes_b = Num 20\<rparr>,
      \<lparr>id_b = ''d'', startTime = ''05:15'', minutes_b = Num 45\<rparr>] (mondayAt 7 0) = Num 75 \<and>
   expectedMinutesByNow
     [\<lparr>id_b = ''d'', startTime = ''05:15'', minutes_b = Num 45\<rparr>,
      \<lparr>id_b = ''c'', startTime = ''08:00'', minutes_b = Num 20\<rparr>,
      \<lparr>id_b = ''a'', startTime = ''06:00'', minutes_b = Num 30\<rparr>,
      \<lparr>id_b = ''b'', startTime = ''06:30'', minutes_b = Num (61 / 2)\<rparr>] (mondayAt 7 0) = Num 75"
  using expectedMinutesByNow_counted_sum
    [of "[\<lparr>id_b = ''a'', startTime = ''06:00'', minutes_b = Num 30\<rparr>,
          \<lparr>id_b = ''b'', startTime = ''06:30'', minutes_b = Num (61 / 2)\<rparr>,
          \<lparr>id_b = ''c'', startTime = ''08:00'', minutes_b = Num 20\<rparr>,
          \<lparr>id_b = ''d'', startTime = ''05:15'', minutes_b = Num 45\<rparr>]" "mondayAt 7 0"
         "[\<lparr>id_b = ''d'', startTime = ''05:15'', minutes_b = Num 45\<rparr>,
          \<lparr>id_b = ''c'', startTime = ''08:00'', minutes_b = Num 20\<rparr>,
          \<lparr>id_b = ''a'', startTime = ''06:00'', minutes_b = Num 30\<rparr>,
          \<lparr>id_b = ''b'', startTime = ''06:30'', minutes_b = Num (61 / 2)\<rparr>]"]
  by (simp add: counted_def plannedInt_def hhmm_eval mondayAt_def)

text \<open>
  From \<open>2^53\<close> on the order does matter: \<open>2^53 + 1\<close> is no double, and the sum of
  \<open>2^53\<close>, 1 and 1 depends on where \<open>2^53\<close> stands.
\<close>

lemma expectedMinutesByNow_order_matters_beyond_2_53:
  "expectedMinutesByNow
     [\<lparr>id_b = ''a'', startTime = ''06:00'', minutes_b = Num (2 ^ 53)\<rparr>,
      \<lparr>id_b = ''b'', startTime = ''06:00'', minutes_b = Num 1\<rparr>,
      \<lparr>id_b = ''c'', startTime = ''06:00'', minutes_b = Num 1\<rparr>] (mondayAt 7 0) = Num (2 ^ 53)"
  "expectedMinutesByNow
     [\<lparr>id_b = ''b'', startTime = ''06:00'', minutes_b = Num 1\<rparr>,
      \<lparr>id_b = ''c'', startTime = ''06:00'', minutes_b = Num 1\<rparr>,
      \<lparr>id_b = ''a'', startTime = ''06:00'', minutes_b = Num (2 ^ 53)\<rparr>] (mondayAt 7 0)
     = Num (2 ^ 53 + 2)"
  by (simp_all add: expectedMinutesByNow_def hhmm_eval mondayAt_def fl_eval)

section \<open>Status\<close>

lemma rows_status:
  "map status (rows now startIso sks sess) =
   map (\<lambda>r. if expectedByNow r = Num 0 then Idle
            else if js_ge (todayMinutes r) (expectedByNow r) then OnTrack else Overdue)
     (rows now startIso sks sess)"
  by (simp add: rows_def completionStatus_def Let_def)

lemma example_blocks: "blocksFor exampleSkill (weekdayFromDate (mondayAt h m)) = [exampleBlock]"
  by (simp add: blocksFor_def weekdayFromDate_def mondayAt_def exampleSkill_def)

lemma example_expected_0500: "expectedMinutesByNow [exampleBlock] (mondayAt 5 0) = Num 0"
  by (simp add: expectedMinutesByNow_def Let_def exampleBlock_def mondayAt_def hhmm_eval)

lemma example_expected_0700: "expectedMinutesByNow [exampleBlock] (mondayAt 7 0) = Num 30"
  by (simp add: expectedMinutesByNow_def Let_def exampleBlock_def mondayAt_def hhmm_eval)

lemma example_session_today: "str_ge (startedAtIso exampleSession) mondayStartIso"
  by (simp add: str_ge_def exampleSession_def mondayStartIso_def)

lemma example_session_fields:
  "skillId exampleSession = id_k exampleSkill" "minutes_s exampleSession = Num 30"
  by (simp_all add: exampleSession_def exampleSkill_def)

text \<open>
  Claim C2.  On the dashboard and in the skill editor the status is idle when the expected
  minutes are 0, whatever was logged, otherwise on track when today's minutes are at least
  the expected ones, otherwise overdue.  For the skill with one block of 30 minutes from
  06:00 and no session: idle with 0 expected at 05:00, overdue with 30 expected at 07:00,
  and on track once a session of 30 minutes is logged.
\<close>

theorem status_is_idle_onTrack_or_overdue:
  "map status (rows now startIso sks sess) =
     map (\<lambda>r. if expectedByNow r = Num 0 then Idle
              else if js_ge (todayMinutes r) (expectedByNow r) then OnTrack else Overdue)
       (rows now startIso sks sess) \<and>
   completion now sk today =
     (if expectedMinutesByNow (blocksFor sk (weekdayFromDate now)) now = Num 0 then Idle
      else if js_ge today (expectedMinutesByNow (blocksFor sk (weekdayFromDate now)) now) then OnTrack
      else Overdue,
      expectedMinutesByNow (blocksFor sk (weekdayFromDate now)) now) \<and>
   map (\<lambda>r. (todayMinutes r, expectedByNow r, status r))
       (rows (mondayAt 5 0) mondayStartIso [exampleSkill] []) = [(Num 0, Num 0, Idle)] \<and>
   map (\<lambda>r. (todayMinutes r, expectedByNow r, status r))
       (rows (mondayAt 7 0) mondayStartIso [exampleSkill] []) = [(Num 0, Num 30, Overdue)] \<and>
   map (\<lambda>r. (todayMinutes r, expectedByNow r, status r))
       (rows (mondayAt 7 0) mondayStartIso [exampleSkill]
          (sessions (addSession \<lparr>skills = [exampleSkill], sessions = [], overrides = []\<rparr> exampleSession)))
     = [(Num 30, Num 30, OnTrack)]"
proof (intro conjI)
  show "map status (rows now startIso sks sess) =
     map (\<lambda>r. if expectedByNow r = Num 0 then Idle
              else if js_ge (todayMinutes r) (expectedByNow r) then OnTrack else Overdue)
       (rows now startIso sks sess)"
    by (rule rows_status)
  show "completion now sk today =
     (if expectedMinutesByNow (blocksFor sk (weekdayFromDate now)) now = Num 0 then Idle
      else if js_ge today (expectedMinutesByNow (blocksFor sk (weekdayFromDate now)) now) then OnTrack
      else Overdue,
      expectedMinutesByNow (blocksFor sk (weekdayFromDate now)) now)"
    by (simp add: completion_def completionStatus_def Let_def)
  show "map (\<lambda>r. (todayMinutes r, expectedByNow r, status r))
       (rows (mondayAt 5 0) mondayStartIso [exampleSkill] []) = [(Num 0, Num 0, Idle)]"
    by (simp add: rows_def Let_def example_blocks example_expected_0500 completionStatus_def)
  show "map (\<lambda>r. (todayMinutes r, expectedByNow r, status r))
       (rows (mondayAt 7 0) mondayStartIso [exampleSkill] []) = [(Num 0, Num 30, Overdue)]"
    by (simp add: rows_def Let_def example_blocks example_expected_0700 completionStatus_def js_ge_def)
  show "map (\<lambda>r. (todayMinutes r, expectedByNow r, status r))
       (rows (mondayAt 7 0) mondayStartIso [exampleSkill]
          (sessions (addSession \<lparr>skills = [exampleSkill], sessions = [], overrides = []\<rparr> exampleSession)))
     = [(Num 30, Num 30, OnTrack)]"
    by (simp add: rows_def Let_def addSession_def example_blocks example_expected_0700
        example_session_today example_session_fields completionStatus_def js_ge_def)
qed

theorem status_is_idle_onTrack_or_overdue_witness:
  "map status (rows (mondayAt 7 0) mondayStartIso [exampleSkill] [exampleSession]) = [OnTrack] \<and>
   completion (mondayAt 7 0) exampleSkill (Num 10) = (Overdue, Num 30)"
  using status_is_idle_onTrack_or_overdue
    [of "mondayAt 7 0" mondayStartIso "[exampleSkill]" "[exampleSession]" exampleSkill "Num 10"]
  by (simp add: rows_def Let_def example_blocks example_expected_0700 example_session_today
      example_session_fields js_ge_def)

section \<open>Normalization\<close>

lemma arrayOrEmpty_isArray: "Array_isArray (arrayOrEmpty v)"
  by (simp add: arrayOrEmpty_def)

lemma arrayOrEmpty_idem: "arrayOrEmpty (arrayOrEmpty v) = arrayOrEmpty v"
  by (simp add: arrayOrEmpty_def)

lemma ownProps_defaultPayload:
  "fmlookup (ownProps defaultPayload) k =
     (if k = ''skills'' \<or> k = ''sessions'' \<or> k = ''overrides'' then Some (JArr []) else None)"
  by (simp add: defaultPayload_def)

lemma getProp_defaultPayload:
  "getProp defaultPayload k =
     (if k = ''skills'' \<or> k = ''sessions'' \<or> k = ''overrides'' then JArr [] else JUndefined)"
  by (simp add: getProp_def ownProps_defaultPayload)

lemma normalizePayload_object:
  "truthy p \<Longrightarrow> typeofObject p \<Longrightarrow>
   normalizePayload p =
     JObj (fmupd ''overrides'' (arrayOrEmpty (getProp p ''overrides''))
          (fmupd ''sessions'' (arrayOrEmpty (getProp p ''sessions''))
          (fmupd ''skills'' (arrayOrEmpty (getProp p ''skills''))
          (ownProps defaultPayload ++\<^sub>f ownProps p))))"
  by (simp add: normalizePayload_def)

lemma normalizePayload_other:
  "\<not> (truthy p \<and> typeofObject p) \<Longrightarrow> normalizePayload p = defaultPayload"
  by (auto simp: normalizePayload_def)

lemma getProp_normalizePayload:
  "getProp (normalizePayload p) k =
     (if k = ''skills'' \<or> k = ''sessions'' \<or> k = ''overrides''
      then (if truthy p \<and> typeofObject p then arrayOrEmpty (getProp p k) else JArr [])
      else (if truthy p \<and> typeofObject p then getProp p k else JUndefined))"
proof (cases "truthy p \<and> typeofObject p")
  case True
  then show ?thesis
    by (auto simp: normalizePayload_object getProp_def ownProps_defaultPayload fmlookup_dom_iff
        split: option.splits)
next
  case False
  then have "normalizePayload p = defaultPayload" by (rule normalizePayload_other)
  with False show ?thesis by (auto simp: getProp_defaultPayload)
qed

lemma normalizePayload_is_object: "\<exists>m. normalizePayload p = JObj m"
  by (cases "truthy p \<and> typeofObject p")
     (auto simp: normalizePayload_object normalizePayload_other defaultPayload_def)

lemma fixed_when_arrays:
  assumes "Array_isArray (getProp (JObj m) ''skills'')"
      and "Array_isArray (getProp (JObj m) ''sessions'')"
      and "Array_isArray (getProp (JObj m) ''overrides'')"
  shows "normalizePayload (JObj m) = JObj m"
proof -
  have "fmupd ''overrides'' (arrayOrEmpty (getProp (JObj m) ''overrides''))
          (fmupd ''sessions'' (arrayOrEmpty (getProp (JObj m) ''sessions''))
          (fmupd ''skills'' (arrayOrEmpty (getProp (JObj m) ''skills''))
          (ownProps defaultPayload ++\<^sub>f ownProps (JObj m)))) = m"
  proof (rule fmap_ext)
    fix k
    show "fmlookup (fmupd ''overrides'' (arrayOrEmpty (getProp (JObj m) ''overrides''))
          (fmupd ''sessions'' (arrayOrEmpty (getProp (JObj m) ''sessions''))
          (fmupd ''skills'' (arrayOrEmpty (getProp (JObj m) ''skills''))
          (ownProps defaultPayload ++\<^sub>f ownProps (JObj m))))) k = fmlookup m k"
    proof -
      have a: "arrayOrEmpty (getProp (JObj m) ''skills'') = getProp (JObj m) ''skills''"
        "arrayOrEmpty (getProp (JObj m) ''sessions'') = getProp (JObj m) ''sessions''"
        "arrayOrEmpty (getProp (JObj m) ''overrides'') = getProp (JObj m) ''overrides''"
        using assms by (simp_all add: arrayOrEmpty_def)
      have d: "fmlookup m j \<noteq> None" if "Array_isArray (getProp (JObj m) j)" for j
        using that by (auto simp: getProp_def split: option.splits)
      consider "k = ''skills''" | "k = ''sessions''" | "k = ''overrides''"
        | "k \<noteq> ''skills''" "k \<noteq> ''sessions''" "k \<noteq> ''overrides''" by blast
      then show ?thesis
      proof cases
        case 1
        with d[OF assms(1)] show ?thesis unfolding a by (auto simp: getProp_def)
      next
        case 2
        with d[OF assms(2)] show ?thesis unfolding a by (auto simp: getProp_def)
      next
        case 3
        with d[OF assms(3)] show ?thesis unfolding a by (auto simp: getProp_def)
      next
        case 4
        then show ?thesis
          by (cases "fmlookup m k") (simp_all add: ownProps_defaultPayload fmlookup_dom_iff)
      qed
    qed
  qed
  then show ?thesis by (simp add: normalizePayload_object)
qed

lemma normalizePayload_idem: "normalizePayload (normalizePayload p) = normalizePayload p"
proof -
  obtain m where m: "normalizePayload p = JObj m" using normalizePayload_is_object by blast
  have "Array_isArray (getProp (normalizePayload p) k)"
    if "k = ''skills'' \<or> k = ''sessions'' \<or> k = ''overrides''" for k
    using that by (auto simp: getProp_normalizePayload arrayOrEmpty_isArray)
  then show ?thesis unfolding m by (intro fixed_when_arrays) simp_all
qed

text \<open>
  Claim C6.  \<open>normalizePayload\<close> is idempotent on every value.  In its result each of
  \<open>skills\<close>, \<open>sessions\<close> and \<open>overrides\<close> is an array: the array the input holds
  there, or the empty array when the input holds anything else or is no object at all.  Every
  other key of an input object is carried over unchanged, on top of the default payload.
\<close>

theorem normalizePayload_idempotent_forces_sequences:
  "normalizePayload (normalizePayload p) = normalizePayload p \<and>
   (k = ''skills'' \<or> k = ''sessions'' \<or> k = ''overrides'' \<longrightarrow>
      Array_isArray (getProp (normalizePayload p) k) \<and>
      getProp (normalizePayload p) k =
        (if truthy p \<and> typeofObject p \<and> Array_isArray (getProp p k) then getProp p k else JArr [])) \<and>
   (k \<noteq> ''skills'' \<and> k \<noteq> ''sessions'' \<and> k \<noteq> ''overrides'' \<longrightarrow>
      getProp (normalizePayload p) k =
        (if truthy p \<and> typeofObject p then getProp p k else getProp defaultPayload k))"
proof (intro conjI impI)
  show "normalizePayload (normalizePayload p) = normalizePayload p"
    by (rule normalizePayload_idem)
next
  assume k: "k = ''skills'' \<or> k = ''sessions'' \<or> k = ''overrides''"
  then show "Array_isArray (getProp (normalizePayload p) k)"
    by (auto simp: getProp_normalizePayload arrayOrEmpty_isArray)
  from k show "getProp (normalizePayload p) k =
        (if truthy p \<and> typeofObject p \<and> Array_isArray (getProp p k) then getProp p k else JArr [])"
    by (auto simp: getProp_normalizePayload arrayOrEmpty_def)
next
  assume "k \<noteq> ''skills'' \<and> k \<noteq> ''sessions'' \<and> k \<noteq> ''overrides''"
  then show "getProp (normalizePayload p) k =
        (if truthy p \<and> typeofObject p then getProp p k else getProp defaultPayload k)"
    by (simp add: getProp_normalizePayload getProp_defaultPayload)
qed

lemma loosePayload_props:
  "truthy loosePayload" "typeofObject loosePayload"
  "getProp loosePayload ''skills'' = JStr ''none''"
  "getProp loosePayload ''sessions'' = JArr [JNum (Num 1)]"
  "getProp loosePayload ''overrides'' = JUndefined"
  "getProp loosePayload ''theme'' = JStr ''dark''"
  by (simp_all add: loosePayload_def getProp_def)

theorem normalizePayload_idempotent_forces_sequences_witness:
  "normalizePayload (normalizePayload loosePayload) = normalizePayload loosePayload \<and>
   getProp (normalizePayload loosePayload) ''skills'' = JArr [] \<and>
   getProp (normalizePayload loosePayload) ''sessions'' = JArr [JNum (Num 1)] \<and>
   getProp (normalizePayload loosePayload) ''overrides'' = JArr [] \<and>
   getProp (normalizePayload loosePayload) ''theme'' = JStr ''dark''"
  using normalizePayload_idempotent_forces_sequences[of loosePayload "''skills''"]
        normalizePayload_idempotent_forces_sequences[of loosePayload "''sessions''"]
        normalizePayload_idempotent_forces_sequences[of loosePayload "''overrides''"]
        normalizePayload_idempotent_forces_sequences[of loosePayload "''theme''"]
  by (simp add: loosePayload_props)

section \<open>Import\<close>

lemma isValid_iff:
  "isValid parsed \<longleftrightarrow>
     truthy parsed \<and> getProp parsed ''version'' = JNum (Num 1) \<and>
     (\<exists>ts. getProp parsed ''updatedAtIso'' = JStr ts)"
  by (cases "getProp parsed ''updatedAtIso''") (simp_all add: isValid_def)

lemma validated_eq:
  "getProp parsed ''updatedAtIso'' = JStr ts \<Longrightarrow>
   validated nowIso parsed =
     \<lparr>version = 1, updatedAtIso = ts, payload = normalizePayload (getProp parsed ''payload'')\<rparr>"
  by (simp add: validated_def)

lemma importBackup_invalid:
  "JSON_parse fileText = Inr parsed \<Longrightarrow> \<not> isValid parsed \<Longrightarrow>
   importBackup JSON_parse nowIso fileText = Inl (Error ''Invalid backup file format (expected version 1).'')"
  by (simp add: importBackup_def)

lemma importBackup_valid:
  "JSON_parse fileText = Inr parsed \<Longrightarrow> isValid parsed \<Longrightarrow>
   importBackup JSON_parse nowIso fileText = Inr (validated nowIso parsed)"
  by (simp add: importBackup_def)

lemma onPick_failure:
  "importBackup JSON_parse nowIso fileText = Inl e \<Longrightarrow>
   onPickImportFile JSON_parse JSON_stringify nowIso (Some fileText) st = st\<lparr>error := Some (message e)\<rparr>"
  by (simp add: onPickImportFile_def)

lemma loadAppData_valid:
  "store STORAGE_KEY = Some raw \<Longrightarrow> raw \<noteq> [] \<Longrightarrow> JSON_parse raw = Inr parsed \<Longrightarrow>
   isValid parsed \<Longrightarrow> loadAppData JSON_parse nowIso store = validated nowIso parsed"
  by (simp add: loadAppData_def)

lemma docNoTime_props:
  "truthy docNoTime" "getProp docNoTime ''version'' = JNum (Num 1)"
  "getProp docNoTime ''updatedAtIso'' = JStr ''not a time''"
  "getProp docNoTime ''payload'' = defaultPayload"
  by (simp_all add: docNoTime_def getProp_def)

lemma normalizePayload_default: "normalizePayload defaultPayload = defaultPayload"
proof -
  have "defaultPayload = normalizePayload JNull" by (simp add: normalizePayload_def)
  then show ?thesis by (metis normalizePayload_idem)
qed

text \<open>
  A document of version 1 whose \<open>updatedAtIso\<close> is the string \<open>not a time\<close> is
  imported, and the string is kept as the timestamp.
\<close>

theorem importBackup_accepts_any_string_timestamp:
  "\<not> isIsoInstant ''not a time'' \<and>
   getProp docNoTime ''updatedAtIso'' = JStr ''not a time'' \<and>
   importBackup (parsesTo docNoTime) ''2024-03-11T08:00:00.000Z'' ''backup.json'' =
     Inr \<lparr>version = 1, updatedAtIso = ''not a time'', payload = defaultPayload\<rparr>"
proof -
  have v: "isValid docNoTime" by (simp add: isValid_def docNoTime_props)
  have "importBackup (parsesTo docNoTime) ''2024-03-11T08:00:00.000Z'' ''backup.json'' =
     Inr (validated ''2024-03-11T08:00:00.000Z'' docNoTime)"
    using v by (simp add: importBackup_def parsesTo_def)
  then show ?thesis
    by (simp add: validated_eq[OF docNoTime_props(3)] docNoTime_props normalizePayload_default
        isIsoInstant_def)
qed

text \<open>
  Claim C4, amended.  For a document the parser accepts, \<open>importBackup\<close> fails with
  exactly \<open>Invalid backup file format (expected version 1).\<close> when the document is
  falsy, its \<open>version\<close> is not 1 or its \<open>updatedAtIso\<close> is not a string; the caller
  then only records the message, its snapshot and the store stay as they were.  Any string is
  accepted as the timestamp.  On success the payload is \<open>normalizePayload\<close> of the
  document's payload, the payload loading the same document gives and saving leaves alone.
\<close>

theorem importBackup_strict_on_version_and_string_timestamp:
  "JSON_parse fileText = Inr parsed \<longrightarrow>
     (\<not> truthy parsed \<or> getProp parsed ''version'' \<noteq> JNum (Num 1) \<or>
      \<not> typeofString (getProp parsed ''updatedAtIso'') \<longrightarrow>
        importBackup JSON_parse nowIso fileText =
          Inl (Error ''Invalid backup file format (expected version 1).'') \<and>
        onPickImportFile JSON_parse JSON_stringify nowIso (Some fileText) st =
          st\<lparr>error := Some ''Invalid backup file format (expected version 1).''\<rparr>) \<and>
     (truthy parsed \<and> getProp parsed ''version'' = JNum (Num 1) \<and>
      getProp parsed ''updatedAtIso'' = JStr ts \<longrightarrow>
        importBackup JSON_parse nowIso fileText =
          Inr \<lparr>version = 1, updatedAtIso = ts,
               payload = normalizePayload (getProp parsed ''payload'')\<rparr> \<and>
        (fileText \<noteq> [] \<longrightarrow>
           payload (loadAppData JSON_parse nowIso' (store(STORAGE_KEY \<mapsto> fileText))) =
             normalizePayload (getProp parsed ''payload'')) \<and>
        payload (fst (saveAppData JSON_stringify nowIso' \<lparr>version = 1, updatedAtIso = ts,
               payload = normalizePayload (getProp parsed ''payload'')\<rparr> store)) =
          normalizePayload (getProp parsed ''payload''))"
proof (intro impI conjI)
  assume p: "JSON_parse fileText = Inr parsed"
  assume "\<not> truthy parsed \<or> getProp parsed ''version'' \<noteq> JNum (Num 1) \<or>
      \<not> typeofString (getProp parsed ''updatedAtIso'')"
  then have nv: "\<not> isValid parsed" by (auto simp: isValid_def)
  show f: "importBackup JSON_parse nowIso fileText =
          Inl (Error ''Invalid backup file format (expected version 1).'')"
    using p nv by (simp add: importBackup_def)
  show "onPickImportFile JSON_parse JSON_stringify nowIso (Some fileText) st =
          st\<lparr>error := Some ''Invalid backup file format (expected version 1).''\<rparr>"
    by (simp add: onPick_failure[OF f])
next
  assume p: "JSON_parse fileText = Inr parsed"
  assume a: "truthy parsed \<and> getProp parsed ''version'' = JNum (Num 1) \<and>
      getProp parsed ''updatedAtIso'' = JStr ts"
  then have v: "isValid parsed" and t: "getProp parsed ''updatedAtIso'' = JStr ts"
    by (simp_all add: isValid_def)
  show "importBackup JSON_parse nowIso fileText =
          Inr \<lparr>version = 1, updatedAtIso = ts,
               payload = normalizePayload (getProp parsed ''payload'')\<rparr>"
    using p v by (simp add: importBackup_def validated_eq[OF t])
  show "payload (fst (saveAppData JSON_stringify nowIso' \<lparr>version = 1, updatedAtIso = ts,
               payload = normalizePayload (getProp parsed ''payload'')\<rparr> store)) =
          normalizePayload (getProp parsed ''payload'')"
    by (simp add: saveAppData_def Let_def normalizePayload_idem)
  assume "fileText \<noteq> []"
  then show "payload (loadAppData JSON_parse nowIso' (store(STORAGE_KEY \<mapsto> fileText))) =
             normalizePayload (getProp parsed ''payload'')"
    using loadAppData_valid[of "store(STORAGE_KEY \<mapsto> fileText)" fileText JSON_parse parsed nowIso'] p v
    by (simp add: validated_eq[OF t])
qed

lemma docVersion2_props:
  "truthy docVersion2" "getProp docVersion2 ''version'' = JNum (Num 2)"
  by (simp_all add: docVersion2_def getProp_def)

theorem importBackup_strict_on_version_and_string_timestamp_witness:
  "importBackup (parsesTo docVersion2) ''2024-03-11T08:00:00.000Z'' ''backup.json'' =
     Inl (Error ''Invalid backup file format (expected version 1).'') \<and>
   app (onPickImportFile (parsesTo docVersion2) stringifyStub ''2024-03-11T08:00:00.000Z''
          (Some ''backup.json'') exampleState) = app exampleState \<and>
   localStorage (onPickImportFile (parsesTo docVersion2) stringifyStub ''2024-03-11T08:00:00.000Z''
          (Some ''backup.json'') exampleState) = localStorage exampleState \<and>
   importBackup (parsesTo docNoTime) ''2024-03-11T08:00:00.000Z'' ''backup.json'' =
     Inr \<lparr>version = 1, updatedAtIso = ''not a time'', payload = defaultPayload\<rparr>"
  using importBackup_strict_on_version_and_string_timestamp
          [of "parsesTo docVersion2" "''backup.json''" docVersion2 "''2024-03-11T08:00:00.000Z''"
              stringifyStub exampleState]
        importBackup_strict_on_version_and_string_timestamp
          [where JSON_parse = "parsesTo docNoTime" and fileText = "''backup.json''"
             and parsed = docNoTime and ts = "''not a time''"
             and nowIso = "''2024-03-11T08:00:00.000Z''"]
  by (simp add: parsesTo_def docVersion2_props docNoTime_props normalizePayload_default)

section \<open>Load\<close>

lemma freshDefault_fields:
  "version (freshDefault nowIso) = 1" "updatedAtIso (freshDefault nowIso) = nowIso"
  "payload (freshDefault nowIso) = defaultPayload"
  by (simp_all add: freshDefault_def)

lemma loadAppData_cases:
  "loadAppData JSON_parse nowIso store = freshDefault nowIso \<or>
   (\<exists>raw parsed. store STORAGE_KEY = Some raw \<and> raw \<noteq> [] \<and> JSON_parse raw = Inr parsed \<and>
      isValid parsed \<and> loadAppData JSON_parse nowIso store = validated nowIso parsed)"
  by (auto simp: loadAppData_def split: option.splits sum.splits)

lemma validated_wellFormed:
  "version (validated nowIso parsed) = 1 \<and>
   normalizePayload (payload (validated nowIso parsed)) = payload (validated nowIso parsed)"
  by (simp add: validated_def normalizePayload_idem)

lemma loadAppData_wellFormed:
  "version (loadAppData JSON_parse nowIso store) = 1 \<and>
   normalizePayload (payload (loadAppData JSON_parse nowIso store)) =
     payload (loadAppData JSON_parse nowIso store)"
  using loadAppData_cases[of JSON_parse nowIso store]
  by (auto simp: freshDefault_fields normalizePayload_default validated_wellFormed)

lemma docNoPayload_props:
  "truthy docNoPayload" "getProp docNoPayload ''version'' = JNum (Num 1)"
  "getProp docNoPayload ''updatedAtIso'' = JStr ''2020-01-01T00:00:00.000Z''"
  "getProp docNoPayload ''payload'' = JUndefined"
  by (simp_all add: docNoPayload_def getProp_def)

text \<open>
  A stored document of version 1 with a timestamp and no \<open>payload\<close>: the loaded
  snapshot keeps the stored timestamp, so it is not the fresh default of the moment.
\<close>

theorem loadAppData_keeps_timestamp_without_payload:
  "getProp docNoPayload ''payload'' = JUndefined \<and>
   loadAppData (parsesTo docNoPayload) ''2024-03-11T08:00:00.000Z''
       [STORAGE_KEY \<mapsto> ''stored document'']
     = \<lparr>version = 1, updatedAtIso = ''2020-01-01T00:00:00.000Z'', payload = defaultPayload\<rparr> \<and>
   loadAppData (parsesTo docNoPayload) ''2024-03-11T08:00:00.000Z''
       [STORAGE_KEY \<mapsto> ''stored document'']
     \<noteq> freshDefault ''2024-03-11T08:00:00.000Z''"
proof -
  have v: "isValid docNoPayload" by (simp add: isValid_def docNoPayload_props)
  have n: "normalizePayload JUndefined = defaultPayload" by (simp add: normalizePayload_def)
  have "loadAppData (parsesTo docNoPayload) ''2024-03-11T08:00:00.000Z''
       [STORAGE_KEY \<mapsto> ''stored document''] = validated ''2024-03-11T08:00:00.000Z'' docNoPayload"
    using v loadAppData_valid[of "[STORAGE_KEY \<mapsto> ''stored document'']" "''stored document''"
        "parsesTo docNoPayload" docNoPayload "''2024-03-11T08:00:00.000Z''"]
    by (simp add: parsesTo_def)
  then show ?thesis
    by (simp add: validated_eq[OF docNoPayload_props(3)] docNoPayload_props n freshDefault_def)
qed

text \<open>
  Claim C5, amended.  \<open>loadAppData\<close> returns a snapshot for every store content, with
  version 1 and a normalized payload whose three fields are arrays.  It is the fresh default
  (version 1, the current timestamp, the default payload) when the stored value is absent,
  empty, unparsable, falsy, of another version or without a string \<open>updatedAtIso\<close>.
  Otherwise it keeps the stored timestamp and normalizes the stored payload, a missing or
  malformed payload becoming the default one.
\<close>

theorem loadAppData_never_fails_and_falls_back:
  "version (loadAppData JSON_parse nowIso store) = 1 \<and>
   normalizePayload (payload (loadAppData JSON_parse nowIso store)) =
     payload (loadAppData JSON_parse nowIso store) \<and>
   (k = ''skills'' \<or> k = ''sessions'' \<or> k = ''overrides'' \<longrightarrow>
      Array_isArray (getProp (payload (loadAppData JSON_parse nowIso store)) k)) \<and>
   (store STORAGE_KEY = None \<or> store STORAGE_KEY = Some [] \<or>
    (\<exists>raw e. store STORAGE_KEY = Some raw \<and> JSON_parse raw = Inl e) \<or>
    (\<exists>raw parsed. store STORAGE_KEY = Some raw \<and> JSON_parse raw = Inr parsed \<and>
       (\<not> truthy parsed \<or> getProp parsed ''version'' \<noteq> JNum (Num 1) \<or>
        \<not> typeofString (getProp parsed ''updatedAtIso'')))
    \<longrightarrow> loadAppData JSON_parse nowIso store =
          \<lparr>version = 1, updatedAtIso = nowIso, payload = defaultPayload\<rparr>) \<and>
   (store STORAGE_KEY = Some raw \<and> raw \<noteq> [] \<and> JSON_parse raw = Inr parsed \<and>
    truthy parsed \<and> getProp parsed ''version'' = JNum (Num 1) \<and>
    getProp parsed ''updatedAtIso'' = JStr ts
    \<longrightarrow> loadAppData JSON_parse nowIso store =
          \<lparr>version = 1, updatedAtIso = ts,
           payload = normalizePayload (getProp parsed ''payload'')\<rparr>)"
proof (intro conjI impI)
  show "version (loadAppData JSON_parse nowIso store) = 1"
    using loadAppData_wellFormed by blast
  show n: "normalizePayload (payload (loadAppData JSON_parse nowIso store)) =
     payload (loadAppData JSON_parse nowIso store)"
    using loadAppData_wellFormed by blast
  show "Array_isArray (getProp (payload (loadAppData JSON_parse nowIso store)) k)"
    if "k = ''skills'' \<or> k = ''sessions'' \<or> k = ''overrides''"
  proof -
    have "Array_isArray (getProp (normalizePayload (payload (loadAppData JSON_parse nowIso store))) k)"
      using that by (auto simp: getProp_normalizePayload arrayOrEmpty_isArray)
    then show ?thesis by (simp only: n)
  qed
  show "loadAppData JSON_parse nowIso store =
          \<lparr>version = 1, updatedAtIso = nowIso, payload = defaultPayload\<rparr>"
    if "store STORAGE_KEY = None \<or> store STORAGE_KEY = Some [] \<or>
    (\<exists>raw e. store STORAGE_KEY = Some raw \<and> JSON_parse raw = Inl e) \<or>
    (\<exists>raw parsed. store STORAGE_KEY = Some raw \<and> JSON_parse raw = Inr parsed \<and>
       (\<not> truthy parsed \<or> getProp parsed ''version'' \<noteq> JNum (Num 1) \<or>
        \<not> typeofString (getProp parsed ''updatedAtIso'')))"
    using that by (auto simp: loadAppData_def freshDefault_def isValid_def)
  show "loadAppData JSON_parse nowIso store =
          \<lparr>version = 1, updatedAtIso = ts,
           payload = normalizePayload (getProp parsed ''payload'')\<rparr>"
    if "store STORAGE_KEY = Some raw \<and> raw \<noteq> [] \<and> JSON_parse raw = Inr parsed \<and>
    truthy parsed \<and> getProp parsed ''version'' = JNum (Num 1) \<and>
    getProp parsed ''updatedAtIso'' = JStr ts"
    using that by (simp add: loadAppData_def isValid_def validated_def)
qed

lemma docLoose_props:
  "truthy docLoose" "getProp docLoose ''version'' = JNum (Num 1)"
  "getProp docLoose ''updatedAtIso'' = JStr ''2024-03-11T07:00:00.000Z''"
  "getProp docLoose ''payload'' = loosePayload"
  by (simp_all add: docLoose_def getProp_def)

theorem loadAppData_never_fails_and_falls_back_witness:
  "loadAppData (parsesTo docVersion2) ''2024-03-11T08:00:00.000Z'' [STORAGE_KEY \<mapsto> ''stored document'']
     = \<lparr>version = 1, updatedAtIso = ''2024-03-11T08:00:00.000Z'', payload = defaultPayload\<rparr> \<and>
   loadAppData (parsesTo docVersion2) ''2024-03-11T08:00:00.000Z'' Map.empty
     = \<lparr>version = 1, updatedAtIso = ''2024-03-11T08:00:00.000Z'', payload = defaultPayload\<rparr> \<and>
   loadAppData (parsesTo docLoose) ''2024-03-11T08:00:00.000Z'' [STORAGE_KEY \<mapsto> ''stored document'']
     = \<lparr>version = 1, updatedAtIso = ''2024-03-11T07:00:00.000Z'',
        payload = normalizePayload loosePayload\<rparr> \<and>
   Array_isArray (getProp (payload (loadAppData (parsesTo docLoose) ''2024-03-11T08:00:00.000Z''
      [STORAGE_KEY \<mapsto> ''stored document''])) ''skills'')"
  using loadAppData_never_fails_and_falls_back
          [where JSON_parse = "parsesTo docVersion2" and nowIso = "''2024-03-11T08:00:00.000Z''"
             and store = "[STORAGE_KEY \<mapsto> ''stored document'']" and raw = "''stored document''"
             and parsed = docVersion2 and ts = "''2024-03-11T07:00:00.000Z''" and k = "''skills''"]
        loadAppData_never_fails_and_falls_back
          [where JSON_parse = "parsesTo docVersion2" and nowIso = "''2024-03-11T08:00:00.000Z''"
             and store = "Map.empty" and raw = "''stored document''"
             and parsed = docVersion2 and ts = "''2024-03-11T07:00:00.000Z''" and k = "''skills''"]
        loadAppData_never_fails_and_falls_back
          [where JSON_parse = "parsesTo docLoose" and nowIso = "''2024-03-11T08:00:00.000Z''"
             and store = "[STORAGE_KEY \<mapsto> ''stored document'']" and raw = "''stored document''"
             and parsed = docLoose and ts = "''2024-03-11T07:00:00.000Z''" and k = "''skills''"]
  by (simp add: parsesTo_def docVersion2_props docLoose_props getProp_normalizePayload
      arrayOrEmpty_isArray)

text \<open>
  The earlier revision does fall back to its fresh default whenever one of the three
  fields is missing, the payload included.
\<close>

lemma loadAppDataLegacy_falls_back:
  assumes "store STORAGE_KEY = None \<or> store STORAGE_KEY = Some [] \<or>
    (\<exists>raw e. store STORAGE_KEY = Some raw \<and> JSON_parse raw = Inl e) \<or>
    (\<exists>raw parsed. store STORAGE_KEY = Some raw \<and> JSON_parse raw = Inr parsed \<and>
       (getProp parsed ''version'' \<noteq> JNum (Num 1) \<or>
        \<not> typeofString (getProp parsed ''updatedAtIso'') \<or>
        \<not> typeofObject (getProp parsed ''payload'')))"
  shows "loadAppDataLegacy JSON_parse nowIso store =
           \<lparr>version = 1, updatedAtIso = nowIso, payload = JObj fmempty\<rparr>"
  using assms by (auto simp: loadAppDataLegacy_def freshDefaultLegacy_def)

lemma loadAppDataLegacy_without_payload:
  "loadAppDataLegacy (parsesTo docNoPayload) ''2024-03-11T08:00:00.000Z''
       [STORAGE_KEY \<mapsto> ''stored document'']
     = \<lparr>version = 1, updatedAtIso = ''2024-03-11T08:00:00.000Z'', payload = JObj fmempty\<rparr>"
  by (simp add: loadAppDataLegacy_def parsesTo_def docNoPayload_props freshDefaultLegacy_def)

section \<open>Deleting a skill\<close>

lemma filterSkills_ok:
  "JNull \<notin> set xs \<Longrightarrow> JUndefined \<notin> set xs \<Longrightarrow>
   filterSkills sid xs = Inr (filter (\<lambda>s. getProp s ''id'' \<noteq> JStr sid) xs)"
  by (induction xs) auto

lemma filterSkills_result:
  "filterSkills sid xs = Inr r \<Longrightarrow> r = filter (\<lambda>s. getProp s ''id'' \<noteq> JStr sid) xs"
  by (induction xs arbitrary: r) (auto split: if_splits sum.splits)

lemma normalized_is_object:
  "normalizePayload p = p \<Longrightarrow> \<exists>m. p = JObj m"
  using normalizePayload_is_object[of p] by simp

lemma normalized_arrays:
  assumes "normalizePayload p = p" "k = ''skills'' \<or> k = ''sessions'' \<or> k = ''overrides''"
  shows "Array_isArray (getProp p k)"
proof -
  have "Array_isArray (getProp (normalizePayload p) k)"
    using assms(2) by (auto simp: getProp_normalizePayload arrayOrEmpty_isArray)
  then show ?thesis by (simp only: assms(1))
qed

lemma replace_skills_normalized:
  assumes n: "normalizePayload p = p"
  shows "normalizePayload (JObj (fmupd ''skills'' (JArr ys) (ownProps p))) =
           JObj (fmupd ''skills'' (JArr ys) (ownProps p))"
proof (rule fixed_when_arrays)
  show "Array_isArray (getProp (JObj (fmupd ''skills'' (JArr ys) (ownProps p))) ''skills'')"
    by (simp add: getProp_def)
  have "Array_isArray (getProp p ''sessions'')" using n by (rule normalized_arrays) simp
  then show "Array_isArray (getProp (JObj (fmupd ''skills'' (JArr ys) (ownProps p))) ''sessions'')"
    by (simp add: getProp_def)
  have "Array_isArray (getProp p ''overrides'')" using n by (rule normalized_arrays) simp
  then show "Array_isArray (getProp (JObj (fmupd ''skills'' (JArr ys) (ownProps p))) ''overrides'')"
    by (simp add: getProp_def)
qed

lemma commit_app:
  "app (commit JSON_stringify nowIso next st) =
     \<lparr>version = 1, updatedAtIso = nowIso, payload = normalizePayload (payload next)\<rparr>"
  by (simp add: commit_def saveAppData_def Let_def)

lemma commit_normalized:
  "normalizePayload (payload (app (commit JSON_stringify nowIso next st))) =
     payload (app (commit JSON_stringify nowIso next st))"
  by (simp add: commit_app normalizePayload_idem)

text \<open>
  Claim C9.  The snapshot of the application comes from \<open>loadAppData\<close> or from a commit,
  so its payload is normalized.  Deleting a skill then removes from \<open>skills\<close> the
  elements with that id and nothing else: \<open>sessions\<close>, with the sessions that name the
  deleted skill, and \<open>overrides\<close> are the same arrays afterwards.  The deletion goes
  through whenever no element of \<open>skills\<close> is null or undefined.
\<close>

theorem deleteSkill_keeps_sessions_and_overrides:
  assumes "normalizePayload (payload (app st)) = payload (app st)"
  shows "(deleteSkill JSON_stringify nowIso sid st = Inr st' \<longrightarrow>
            getProp (payload (app st')) ''sessions'' = getProp (payload (app st)) ''sessions'' \<and>
            getProp (payload (app st')) ''overrides'' = getProp (payload (app st)) ''overrides'' \<and>
            (\<exists>xs. getProp (payload (app st)) ''skills'' = JArr xs \<and>
                  getProp (payload (app st')) ''skills'' =
                    JArr (filter (\<lambda>s. getProp s ''id'' \<noteq> JStr sid) xs))) \<and>
         (getProp (payload (app st)) ''skills'' = JArr xs \<and> JNull \<notin> set xs \<and> JUndefined \<notin> set xs
            \<longrightarrow> (\<exists>st'. deleteSkill JSON_stringify nowIso sid st = Inr st'))"
proof (intro conjI impI)
  assume d: "deleteSkill JSON_stringify nowIso sid st = Inr st'"
  then obtain ys r where ys: "getProp (payload (app st)) ''skills'' = JArr ys"
    and r: "filterSkills sid ys = Inr r"
    and st': "st' = commit JSON_stringify nowIso
                ((app st)\<lparr>payload := JObj (fmupd ''skills'' (JArr r) (ownProps (payload (app st))))\<rparr>) st"
    by (auto simp: deleteSkill_def split: json.splits sum.splits)
  have p: "payload (app st') = JObj (fmupd ''skills'' (JArr r) (ownProps (payload (app st))))"
    by (simp add: st' commit_app replace_skills_normalized[OF assms])
  show "getProp (payload (app st')) ''sessions'' = getProp (payload (app st)) ''sessions''"
    by (simp add: p getProp_def)
  show "getProp (payload (app st')) ''overrides'' = getProp (payload (app st)) ''overrides''"
    by (simp add: p getProp_def)
  show "\<exists>xs. getProp (payload (app st)) ''skills'' = JArr xs \<and>
                  getProp (payload (app st')) ''skills'' =
                    JArr (filter (\<lambda>s. getProp s ''id'' \<noteq> JStr sid) xs)"
    using ys filterSkills_result[OF r] by (simp add: p getProp_def)
next
  assume "getProp (payload (app st)) ''skills'' = JArr xs \<and> JNull \<notin> set xs \<and> JUndefined \<notin> set xs"
  then show "\<exists>st'. deleteSkill JSON_stringify nowIso sid st = Inr st'"
    by (simp add: deleteSkill_def filterSkills_ok)
qed


lemma exampleState_normalized:
  "normalizePayload (payload (app exampleState)) = payload (app exampleState)"
  unfolding exampleState_def by (simp, rule fixed_when_arrays) (simp_all add: getProp_def)

lemma exampleState_skills:
  "getProp (payload (app exampleState)) ''skills'' =
     JArr [JObj (fmap_of_list [(''id'', JStr ''s1'')]), JObj (fmap_of_list [(''id'', JStr ''s2'')])]"
  by (simp add: exampleState_def getProp_def)

lemma exampleState_sessions:
  "getProp (payload (app exampleState)) ''sessions'' =
     JArr [JObj (fmap_of_list
       [(''id'', JStr ''x1''), (''skillId'', JStr ''s1''), (''minutes'', JNum (Num 30))])]"
  by (simp add: exampleState_def getProp_def)

theorem deleteSkill_keeps_sessions_and_overrides_witness:
  "\<not> isl (deleteSkill stringifyStub ''2024-03-11T08:00:00.000Z'' ''s1'' exampleState) \<and>
   getProp (payload (app (projr
       (deleteSkill stringifyStub ''2024-03-11T08:00:00.000Z'' ''s1'' exampleState)))) ''sessions'' =
     JArr [JObj (fmap_of_list
       [(''id'', JStr ''x1''), (''skillId'', JStr ''s1''), (''minutes'', JNum (Num 30))])] \<and>
   getProp (payload (app (projr
       (deleteSkill stringifyStub ''2024-03-11T08:00:00.000Z'' ''s1'' exampleState)))) ''skills'' =
     JArr [JObj (fmap_of_list [(''id'', JStr ''s2'')])]"
proof -
  let ?d = "deleteSkill stringifyStub ''2024-03-11T08:00:00.000Z'' ''s1'' exampleState"
  note T = deleteSkill_keeps_sessions_and_overrides[OF exampleState_normalized,
      where JSON_stringify = stringifyStub and nowIso = "''2024-03-11T08:00:00.000Z''"
        and sid = "''s1''" and st' = "projr ?d"
        and xs = "[JObj (fmap_of_list [(''id'', JStr ''s1'')]), JObj (fmap_of_list [(''id'', JStr ''s2'')])]"]
  from T exampleState_skills obtain st' where d: "?d = Inr st'" by auto
  then have e: "?d = Inr (projr ?d)" by simp
  have ids: "getProp (JObj (fmap_of_list [(''id'', JStr ''s1'')])) ''id'' = JStr ''s1''"
    "getProp (JObj (fmap_of_list [(''id'', JStr ''s2'')])) ''id'' = JStr ''s2''"
    by (simp_all add: getProp_def)
  from T e have s: "getProp (payload (app (projr ?d))) ''sessions'' =
      getProp (payload (app exampleState)) ''sessions''"
    and k: "\<exists>xs. getProp (payload (app exampleState)) ''skills'' = JArr xs \<and>
        getProp (payload (app (projr ?d))) ''skills'' =
          JArr (filter (\<lambda>s. getProp s ''id'' \<noteq> JStr ''s1'') xs)"
    by blast+
  from k have k': "getProp (payload (app (projr ?d))) ''skills'' =
      JArr [JObj (fmap_of_list [(''id'', JStr ''s2'')])]"
    unfolding exampleState_skills by (auto simp: getProp_def)
  from d have "\<not> isl ?d" by simp
  with s k' show ?thesis by (simp only: exampleState_sessions) simp
qed

section \<open>The order of the rows\<close>

lemma pr_less_iff:
  "pr (priority (skill a)) < pr (priority (skill b)) \<longleftrightarrow> rank a < rank b"
  by (cases "priority (skill a)"; cases "priority (skill b)";
      cases "the (priority (skill a))"; cases "the (priority (skill b))")
     (simp_all add: pr_def rank_def)

lemma pr_eq_iff:
  "pr (priority (skill a)) = pr (priority (skill b)) \<longleftrightarrow> rank a = rank b"
  by (cases "priority (skill a)"; cases "priority (skill b)";
      cases "the (priority (skill a))"; cases "the (priority (skill b))")
     (simp_all add: pr_def rank_def)

lemma compareRows_le:
  "compareRows lc a b \<le> 0 \<longleftrightarrow>
     rank a < rank b \<or> (rank a = rank b \<and> lc (name (skill a)) (name (skill b)) \<le> 0)"
  using pr_less_iff[of a b] pr_eq_iff[of a b]
  by (auto simp: compareRows_def Let_def)

lemma mset_insertBy: "mset (insertBy cmp x ys) = add_mset x (mset ys)"
  by (induction ys) simp_all

lemma mset_sortBy: "mset (sortBy cmp xs) = mset xs"
  by (induction xs) (simp_all add: sortBy_def mset_insertBy)

lemma set_insertBy: "set (insertBy cmp x ys) = insert x (set ys)"
  by (induction ys) auto

lemma sorted_insertBy:
  assumes total: "\<And>a b. \<not> cmp a b \<le> 0 \<Longrightarrow> cmp b a \<le> (0::int)"
      and trans: "\<And>a b c. cmp a b \<le> 0 \<Longrightarrow> cmp b c \<le> 0 \<Longrightarrow> cmp a c \<le> 0"
      and "sorted_wrt (\<lambda>a b. cmp a b \<le> 0) ys"
  shows "sorted_wrt (\<lambda>a b. cmp a b \<le> 0) (insertBy cmp x ys)"
  using assms(3)
proof (induction ys)
  case Nil
  then show ?case by simp
next
  case (Cons y ys)
  show ?case
  proof (cases "cmp x y \<le> 0")
    case True
    with Cons.prems show ?thesis by (auto intro: trans)
  next
    case False
    then have "cmp y x \<le> 0" by (rule total)
    with False Cons show ?thesis by (auto simp: set_insertBy)
  qed
qed

lemma sorted_sortBy:
  assumes total: "\<And>a b. \<not> cmp a b \<le> 0 \<Longrightarrow> cmp b a \<le> (0::int)"
      and trans: "\<And>a b c. cmp a b \<le> 0 \<Longrightarrow> cmp b c \<le> 0 \<Longrightarrow> cmp a c \<le> 0"
  shows "sorted_wrt (\<lambda>a b. cmp a b \<le> 0) (sortBy cmp xs)"
proof (induction xs)
  case Nil
  then show ?case by (simp add: sortBy_def)
next
  case (Cons x xs)
  have "sortBy cmp (x # xs) = insertBy cmp x (sortBy cmp xs)" by (simp add: sortBy_def)
  with Cons show ?case using sorted_insertBy[OF total trans] by simp
qed

text \<open>
  Claim C8.  For a \<open>localeCompare\<close> that is total and transitive, the rows of the
  "all skills" view are the given rows in an order sorted by ascending priority rank, an
  absent priority ranking as \<open>\<infinity>\<close> after every ranked skill, and within equal rank
  by ascending name under \<open>localeCompare\<close>.
\<close>

theorem sortedRows_by_priority_then_name:
  assumes total: "\<And>s t. \<not> localeCompare s t \<le> 0 \<Longrightarrow> localeCompare t s \<le> 0"
      and trans: "\<And>s t u. localeCompare s t \<le> 0 \<Longrightarrow> localeCompare t u \<le> 0 \<Longrightarrow> localeCompare s u \<le> 0"
  shows "mset (sortedRows localeCompare rs) = mset rs \<and>
         sorted_wrt (\<lambda>a b. rank a < rank b \<or>
                       (rank a = rank b \<and> localeCompare (name (skill a)) (name (skill b)) \<le> 0))
           (sortedRows localeCompare rs) \<and>
         (priority (skill a) = None \<and> priority (skill b) \<noteq> None \<longrightarrow>
            sortedRows localeCompare [a, b] = [b, a])"
proof (intro conjI impI)
  show "mset (sortedRows localeCompare rs) = mset rs"
    by (simp add: sortedRows_def mset_sortBy)
  have t1: "compareRows localeCompare y x \<le> 0" if "\<not> compareRows localeCompare x y \<le> 0" for x y
    using that total[of "name (skill x)" "name (skill y)"]
    unfolding compareRows_le by (metis linorder_less_linear)
  have t2: "compareRows localeCompare x z \<le> 0"
    if "compareRows localeCompare x y \<le> 0" "compareRows localeCompare y z \<le> 0" for x y z
    using that trans[of "name (skill x)" "name (skill y)" "name (skill z)"]
    unfolding compareRows_le by (metis order_less_trans)
  have "sorted_wrt (\<lambda>a b. compareRows localeCompare a b \<le> 0) (sortedRows localeCompare rs)"
    unfolding sortedRows_def by (rule sorted_sortBy[OF t1 t2])
  then show "sorted_wrt (\<lambda>a b. rank a < rank b \<or>
                       (rank a = rank b \<and> localeCompare (name (skill a)) (name (skill b)) \<le> 0))
           (sortedRows localeCompare rs)"
    by (simp add: compareRows_le)
next
  assume "priority (skill a) = None \<and> priority (skill b) \<noteq> None"
  then have "rank b < rank a" by (auto simp: rank_def)
  then have "\<not> compareRows localeCompare a b \<le> 0" unfolding compareRows_le by auto
  then show "sortedRows localeCompare [a, b] = [b, a]"
    by (simp add: sortedRows_def sortBy_def)
qed

theorem sortedRows_by_priority_then_name_witness:
  "mset (sortedRows lengthCompare exampleRows) = mset exampleRows \<and>
   sorted_wrt (\<lambda>a b. rank a < rank b \<or>
                 (rank a = rank b \<and> lengthCompare (name (skill a)) (name (skill b)) \<le> 0))
     (sortedRows lengthCompare exampleRows) \<and>
   sortedRows lengthCompare [rowOf ''Zen'' None, rowOf ''Go'' (Some P1)] =
     [rowOf ''Go'' (Some P1), rowOf ''Zen'' None]"
  using sortedRows_by_priority_then_name
          [where localeCompare = lengthCompare and rs = exampleRows
             and a = "rowOf ''Zen'' None" and b = "rowOf ''Go'' (Some P1)"]
  by (simp add: lengthCompare_def rowOf_def)

lemma sortedRows_example:
  "map (\<lambda>r. name (skill r)) (sortedRows lengthCompare exampleRows) =
     [''Go'', ''Art'', ''Learn SQL'', ''Zen'']"
  by (simp add: sortedRows_def sortBy_def exampleRows_def rowOf_def compareRows_def pr_def
      lengthCompare_def)

section \<open>Durations\<close>

lemma nine_props:
  "isDigit (CHR ''9'')" "\<not> isSpace (CHR ''9'')" "lowerChar (CHR ''9'') = CHR ''9''"
  "digitVal (CHR ''9'') = 9"
  by (simp_all add: isDigit_def isSpace_def lowerChar_def digitVal_def)

lemma dropWhile_replicate: "\<not> P c \<Longrightarrow> dropWhile P (replicate n c) = replicate n c"
  by (cases n) simp_all

lemma trim_nines: "trim (replicate n (CHR ''9'')) = replicate n (CHR ''9'')"
  by (simp add: trim_def dropWhile_replicate nine_props)

lemma lower_nines: "toLowerCase (replicate n (CHR ''9'')) = replicate n (CHR ''9'')"
  by (simp add: toLowerCase_def nine_props)

lemma all_digit_nines: "list_all isDigit (replicate n (CHR ''9''))"
  by (simp add: list_all_iff nine_props)

lemma digitsVal_nines_aux:
  "foldl (\<lambda>n c. 10 * n + digitVal c) a (replicate n (CHR ''9'')) = a * 10 ^ n + (10 ^ n - 1)"
  by (induction n arbitrary: a) (simp_all add: nine_props algebra_simps)

lemma digitsVal_nines: "digitsVal (replicate n (CHR ''9'')) = 10 ^ n - 1"
  by (simp add: digitsVal_def digitsVal_nines_aux)

lemma fl_overflow: "fl (of_int (10 ^ 310 - 1)) = PosInf"
  by (simp add: fl_eval)

text \<open>
  Claim C3.  A string of 310 nines is a pure digit string; \<^verbatim>\<open>parseInt\<close> gives
  \<^verbatim>\<open>Infinity\<close> for it, which is not \<open>\<le> 0\<close>, and the parser succeeds with
  \<^verbatim>\<open>Infinity\<close> minutes, which is no integer.
\<close>

theorem parseDurationToMinutes_overflows_to_infinity:
  "parseDurationToMinutes (replicate 310 (CHR ''9'')) = Ok PosInf \<and>
   \<not> Number_isInteger PosInf"
proof -
  have ne: "replicate 310 (CHR ''9'') \<noteq> []" by simp
  have p: "parseInt10 (replicate 310 (CHR ''9'')) = PosInf"
    unfolding parseInt10_def digitsVal_nines by (rule fl_overflow)
  have "parseDurationToMinutes (replicate 310 (CHR ''9'')) =
      (let minutes = parseInt10 (replicate 310 (CHR ''9''))
       in if js_le minutes (Num 0) then Fail ''Minutes must be > 0.'' else Ok minutes)"
    unfolding parseDurationToMinutes_def trim_nines lower_nines
    using ne all_digit_nines[of 310] by (simp only: Let_def if_False if_True)
  then show ?thesis by (simp add: p)
qed

theorem parseDurationToMinutes_overflows_to_infinity_witness:
  "\<exists>m. parseDurationToMinutes (replicate 310 (CHR ''9'')) = Ok m \<and> \<not> Number_isInteger m"
  using parseDurationToMinutes_overflows_to_infinity by blast

lemmas pd_eval = parseDurationToMinutes_def minMatch_def hrMatch_def parseInt10_def Number_decimal_def
  minuteUnits_def hourUnits_def isDigit_def isSpace_def digitsVal_def digitVal_def
  trim_def toLowerCase_def lowerChar_def

lemma parseDurationToMinutes_examples:
  "parseDurationToMinutes ''45'' = Ok (Num 45)"
  "parseDurationToMinutes ''0'' = Fail ''Minutes must be > 0.''"
  "parseDurationToMinutes ''1.5hr'' = Ok (Num 90)"
  "parseDurationToMinutes ''30.5min'' =
     Fail ''Invalid duration. Examples: 30, 30min, 45m, 1hr, 0.5hr. Decimals allowed only for hours.''"
  "parseDurationToMinutes [] = Fail ''Duration is required.''"
  "parseDurationToMinutes ''   '' = Fail ''Duration is required.''"
  "parseDurationToMinutes ''90 m'' = Ok (Num 90)"
  "parseDurationToMinutes ''0h'' = Fail ''Hours must be > 0.''"
  "parseDurationToMinutes ''0.001h'' = Fail ''Duration too small.''"
  by (simp_all add: pd_eval fl_eval)

lemma isDigit_digitVal: "isDigit c \<Longrightarrow> 0 \<le> digitVal c"
  by (auto simp: isDigit_def digitVal_def)

lemma digitsVal_nonneg_aux:
  "list_all isDigit ds \<Longrightarrow> 0 \<le> a \<Longrightarrow> 0 \<le> foldl (\<lambda>n c. 10 * n + digitVal c) a ds"
  by (induction ds arbitrary: a) (simp_all add: isDigit_digitVal)

lemma digitsVal_nonneg: "list_all isDigit ds \<Longrightarrow> 0 \<le> digitsVal ds"
  by (simp add: digitsVal_def digitsVal_nonneg_aux)

lemma takeWhile_all: "list_all P (takeWhile P xs)"
  by (induction xs) simp_all

lemma pow2_pos: "0 < pow2 k"
  by (simp add: pow2_def)

lemma roundTiesEven_nonneg: "0 \<le> q \<Longrightarrow> 0 \<le> roundTiesEven q"
  by (simp add: roundTiesEven_def Let_def)

lemma flpos_shape:
  assumes "0 < x"
  shows "flpos x = PosInf \<or> (\<exists>y. flpos x = Num y \<and> 0 \<le> y)"
proof -
  let ?u = "pow2 (max (ilog2 x) (- 1022) - 52)"
  have "0 \<le> x / ?u" using assms pow2_pos[of "max (ilog2 x) (- 1022) - 52"] by simp
  then have "0 \<le> roundTiesEven (x / ?u)" by (rule roundTiesEven_nonneg)
  then have "0 \<le> of_int (roundTiesEven (x / ?u)) * ?u"
    using pow2_pos[of "max (ilog2 x) (- 1022) - 52"] by simp
  then show ?thesis by (simp add: flpos_def Let_def)
qed

lemma flpos_big_int_shape:
  assumes "2 ^ 53 \<le> v"
  shows "flpos (of_int v) = PosInf \<or> (\<exists>n. 0 \<le> n \<and> flpos (of_int v) = Num (of_int n))"
proof -
  have "(0::int) < 2 ^ 53" by simp
  with assms have v0: "0 < v" by linarith
  let ?e = "bitlen v - 1"
  have "v < 2 ^ nat (bitlen v)" using bitlen_bounds[OF v0] by simp
  with assms have lt: "(2::int) ^ 53 < 2 ^ nat (bitlen v)" by linarith
  have "53 < nat (bitlen v)" by (rule power_less_imp_less_exp[OF _ lt]) simp
  then have e: "53 \<le> ?e" by linarith
  have il: "ilog2 (of_int v) = ?e" using v0 by (simp add: ilog2_def)
  define k where "k = nat (?e - 52)"
  have u: "pow2 (max ?e (- 1022) - 52) = of_int (2 ^ k)"
    using e by (simp add: pow2_def k_def max_def)
  define r where "r = roundTiesEven (of_int v / of_int (2 ^ k))"
  have r0: "0 \<le> r" unfolding r_def using v0 by (intro roundTiesEven_nonneg) simp
  have y: "real_of_int r * real_of_int (2 ^ k) = of_int (r * 2 ^ k)" by simp
  have "0 \<le> r * 2 ^ k" using r0 by simp
  then show ?thesis
    unfolding flpos_def il u Let_def r_def[symmetric] y by auto
qed

lemma fl_nonneg_int_shape:
  assumes "0 \<le> v"
  shows "fl (of_int v) = PosInf \<or> (\<exists>n. 0 \<le> n \<and> fl (of_int v) = Num (of_int n))"
proof (cases "v < 2 ^ 53")
  case True
  with assms have "\<bar>v\<bar> < 2 ^ 53" by simp
  then have "fl (of_int v) = Num (of_int v)" by (rule fl_int_exact)
  with assms show ?thesis by blast
next
  case False
  then have b: "2 ^ 53 \<le> v" by simp
  have "(0::int) < 2 ^ 53" by simp
  with b have "0 < v" by linarith
  then have "fl (of_int v) = flpos (of_int v)" by (simp add: fl_def)
  with flpos_big_int_shape[OF b] show ?thesis by simp
qed

lemma parseInt10_shape:
  "list_all isDigit ds \<Longrightarrow>
   parseInt10 ds = PosInf \<or> (\<exists>n. 0 \<le> n \<and> parseInt10 ds = Num (of_int n))"
  unfolding parseInt10_def by (rule fl_nonneg_int_shape) (rule digitsVal_nonneg)

lemma positive_shape:
  assumes "m = PosInf \<or> (\<exists>n. 0 \<le> n \<and> m = Num (of_int n))" "\<not> js_le m (Num 0)"
  shows "m = PosInf \<or> (\<exists>n. 0 < n \<and> m = Num (of_int n))"
  using assms by (auto simp: order_less_le)

lemma hours_minutes_shape:
  assumes "Number_isFinite hours" "\<not> js_le hours (Num 0)"
  shows "Math_round (js_times60 hours) = PosInf \<or>
         (\<exists>n. 0 \<le> n \<and> Math_round (js_times60 hours) = Num (of_int n))"
proof -
  from assms obtain a where a: "hours = Num a" "0 < a" by (cases hours) auto
  then have "js_times60 hours = flpos (a * 60)" by (simp add: fl_def)
  with flpos_shape[of "a * 60"] a(2) consider "js_times60 hours = PosInf"
    | y where "js_times60 hours = Num y" "0 \<le> y" by auto
  then show ?thesis
  proof cases
    case 1
    then show ?thesis by simp
  next
    case 2
    then have "0 \<le> \<lfloor>y + 1 / 2\<rfloor>" by simp
    with 2 show ?thesis by auto
  qed
qed

text \<open>
  Apart from that overflow the parser keeps its contract: a success carries a positive
  integer or \<^verbatim>\<open>Infinity\<close>.
\<close>

lemma parseDurationToMinutes_success_shape:
  assumes "parseDurationToMinutes s = Ok m"
  shows "m = PosInf \<or> (\<exists>n. 0 < n \<and> m = Num (of_int n))"
proof -
  let ?raw = "toLowerCase (trim s)"
  consider (digits) "list_all isDigit ?raw" "m = parseInt10 ?raw" "\<not> js_le m (Num 0)"
    | (mins) g where "minMatch ?raw = Some g" "m = parseInt10 g" "\<not> js_le m (Num 0)"
    | (hrs) ip fp where "Number_isFinite (Number_decimal ip fp)"
        "\<not> js_le (Number_decimal ip fp) (Num 0)"
        "m = Math_round (js_times60 (Number_decimal ip fp))" "\<not> js_le m (Num 0)"
    using assms
    by (auto simp: parseDurationToMinutes_def Let_def split: if_splits option.splits prod.splits)
  then show ?thesis
  proof cases
    case digits
    then show ?thesis using parseInt10_shape positive_shape by blast
  next
    case mins
    then have "g = takeWhile isDigit ?raw"
      by (auto simp: minMatch_def Let_def split: if_splits)
    then have "list_all isDigit g" by (simp add: takeWhile_all)
    with mins show ?thesis using parseInt10_shape positive_shape by blast
  next
    case hrs
    then show ?thesis using hours_minutes_shape positive_shape by blast
  qed
qed

section \<open>Minutes of today\<close>

lemma isSameLocalDay_iff:
  "isSameLocalDay newDate stamp day \<longleftrightarrow> localDay (newDate stamp) = localDay day"
  by (auto simp: isSameLocalDay_def localDay_def Let_def)

lemma localDay_startOfTodayLocal: "localDay (startOfTodayLocal now) = localDay now"
  by (simp add: startOfTodayLocal_def localDay_def)

lemma minutesTodayForSkill_sum:
  "minutesTodayForSkill newDate now p sid =
     foldl js_add (Num 0)
       (map minutes_s
          (filter (\<lambda>s. skillId s = sid \<and> localDay (newDate (startedAtIso s)) = localDay now)
             (sessions p)))"
  by (simp add: minutesTodayForSkill_def Let_def isSameLocalDay_iff localDay_startOfTodayLocal
      foldl_map)

lemma night_dates:
  "dateAtOffset (- 300) nightStamp =
     \<lparr>getFullYear = 2024, getMonth = 2, getDate = 10, getDay = 0, getHours = 0, getMinutes = 2\<rparr>"
  "dateAtOffset (- 300) (startedAtIso lateYesterday) =
     \<lparr>getFullYear = 2024, getMonth = 2, getDate = 9, getDay = 6, getHours = 23, getMinutes = 59\<rparr>"
  "dateAtOffset (- 300) (startedAtIso earlyToday) =
     \<lparr>getFullYear = 2024, getMonth = 2, getDate = 10, getDay = 0, getHours = 0, getMinutes = 1\<rparr>"
  "localDay (dateAtOffset 0 nightStamp) = (2024, 2, 10)"
  "localDay (dateAtOffset 0 (startedAtIso lateYesterday)) = (2024, 2, 10)"
  "localDay (dateAtOffset 0 (startedAtIso earlyToday)) = (2024, 2, 10)"
  "epochMinutes nightStamp - epochMinutes (startedAtIso lateYesterday) = 3"
  "epochMinutes nightStamp - epochMinutes (startedAtIso earlyToday) = 1"
  by code_simp+

lemma night_sessions:
  "sessions nightPayload = [earlyToday, lateYesterday]"
  "skillId earlyToday = ''s1''" "skillId lateYesterday = ''s1''"
  "minutes_s earlyToday = Num 15" "minutes_s lateYesterday = Num 20"
  "id_k exampleSkill = ''s1''"
  by (simp_all add: nightPayload_def earlyToday_def lateYesterday_def exampleSkill_def)

lemma night_localDays:
  "localDay (dateAtOffset (- 300) nightStamp) = (2024, 2, 10)"
  "localDay (dateAtOffset (- 300) (startedAtIso lateYesterday)) = (2024, 2, 9)"
  "localDay (dateAtOffset (- 300) (startedAtIso earlyToday)) = (2024, 2, 10)"
  by (simp_all add: night_dates localDay_def)

lemma night_string_order:
  "str_ge (startedAtIso earlyToday) nightStartIso"
  "\<not> str_ge (startedAtIso lateYesterday) nightStartIso"
  by (simp_all add: str_ge_def earlyToday_def lateYesterday_def nightStartIso_def)

text \<open>
  Claim C7.  \<open>minutesTodayForSkill\<close> adds up the minutes of exactly the sessions of the
  skill whose start falls on the local year, month and day of now.  Five hours west of UTC
  at 00:02: the session of 23:59 the evening before is not counted and the one of 00:01 is,
  on the dashboard as well, although both lie on the UTC day of now and within 24 hours of
  now and of each other.
\<close>

theorem minutesTodayForSkill_counts_local_calendar_day:
  "minutesTodayForSkill newDate now p sid =
     foldl js_add (Num 0)
       (map minutes_s
          (filter (\<lambda>s. skillId s = sid \<and> localDay (newDate (startedAtIso s)) = localDay now)
             (sessions p))) \<and>
   minutesTodayForSkill (dateAtOffset (- 300)) (dateAtOffset (- 300) nightStamp) nightPayload ''s1''
     = Num 15 \<and>
   map todayMinutes
     (rows (dateAtOffset (- 300) nightStamp) nightStartIso [exampleSkill] (sessions nightPayload))
     = [Num 15] \<and>
   getHours (dateAtOffset (- 300) (startedAtIso lateYesterday)) = 23 \<and>
   getMinutes (dateAtOffset (- 300) (startedAtIso lateYesterday)) = 59 \<and>
   localDay (dateAtOffset (- 300) (startedAtIso lateYesterday)) \<noteq>
     localDay (dateAtOffset (- 300) nightStamp) \<and>
   getHours (dateAtOffset (- 300) (startedAtIso earlyToday)) = 0 \<and>
   getMinutes (dateAtOffset (- 300) (startedAtIso earlyToday)) = 1 \<and>
   localDay (dateAtOffset (- 300) (startedAtIso earlyToday)) =
     localDay (dateAtOffset (- 300) nightStamp) \<and>
   localDay (dateAtOffset 0 (startedAtIso lateYesterday)) = localDay (dateAtOffset 0 nightStamp) \<and>
   epochMinutes nightStamp - epochMinutes (startedAtIso lateYesterday) < 1440 \<and>
   epochMinutes (startedAtIso earlyToday) - epochMinutes (startedAtIso lateYesterday) < 1440"
proof (intro conjI)
  show "minutesTodayForSkill newDate now p sid =
     foldl js_add (Num 0)
       (map minutes_s
          (filter (\<lambda>s. skillId s = sid \<and> localDay (newDate (startedAtIso s)) = localDay now)
             (sessions p)))"
    by (rule minutesTodayForSkill_sum)
  show "minutesTodayForSkill (dateAtOffset (- 300)) (dateAtOffset (- 300) nightStamp) nightPayload ''s1''
     = Num 15"
    by (simp add: minutesTodayForSkill_sum night_sessions night_localDays)
  show "map todayMinutes
     (rows (dateAtOffset (- 300) nightStamp) nightStartIso [exampleSkill] (sessions nightPayload))
     = [Num 15]"
    by (simp add: rows_def Let_def night_sessions night_string_order)
  show "localDay (dateAtOffset 0 (startedAtIso lateYesterday)) = localDay (dateAtOffset 0 nightStamp)"
    by (simp only: night_dates)
  show "epochMinutes (startedAtIso earlyToday) - epochMinutes (startedAtIso lateYesterday) < 1440"
    using night_dates(7,8) by linarith
qed (simp_all add: night_dates localDay_def)

theorem minutesTodayForSkill_counts_local_calendar_day_witness:
  "minutesTodayForSkill (dateAtOffset (- 300)) (dateAtOffset (- 300) nightStamp) nightPayload ''s2''
     = Num 0 \<and>
   minutesTodayForSkill (dateAtOffset 0) (dateAtOffset 0 nightStamp) nightPayload ''s1'' = Num 35"
  using minutesTodayForSkill_counts_local_calendar_day
          [of "dateAtOffset (- 300)" "dateAtOffset (- 300) nightStamp" nightPayload "''s2''"]
        minutesTodayForSkill_counts_local_calendar_day
          [of "dateAtOffset 0" "dateAtOffset 0 nightStamp" nightPayload "''s1''"]
  by (simp add: night_sessions night_dates fl_eval)

end
